theory Spec2Isabelle
  imports Main
begin

section \<open>Go types as the validator observes them\<close>

text \<open>
  \<open>parseHandler\<close> never looks at a value, only at the \<open>reflect.Type\<close> of the
  candidate: its kind, its parameter and result lists, whether a type implements
  \<open>context.Context\<close> or \<open>error\<close>, and whether the element type of a slice of functions
  converts to \<open>ResponseFunc\<close>. The datatype below has the Go types that decide these
  questions; \<open>TPlain\<close> stands for any type without methods that is neither a function,
  a slice nor a pointer (\<open>string\<close>, \<open>int\<close>, a plain struct), \<open>TImpl n e c\<close> for a named
  struct type \<open>n\<close> that has an \<open>Error() string\<close> method iff \<open>e\<close> and the four methods of
  \<open>context.Context\<close> iff \<open>c\<close>.
\<close>

datatype gotype =
    TPlain string
  | TContext
  | TErrorIface
  | THandlerErr
  | TImpl string bool bool
  | TResponse
  | TResponseFunc
  | TPtr gotype
  | TSlice gotype
  | TFunc "gotype list" "gotype list"

datatype kind = Func | Slice | Ptr | Interface | Struct | OtherKind

fun Kind :: "gotype \<Rightarrow> kind" where
  "Kind (TFunc ins outs) = Func"
| "Kind TResponseFunc = Func"
| "Kind (TSlice t) = Slice"
| "Kind (TPtr t) = Ptr"
| "Kind TContext = Interface"
| "Kind TErrorIface = Interface"
| "Kind THandlerErr = Struct"
| "Kind (TImpl n e c) = Struct"
| "Kind TResponse = Struct"
| "Kind (TPlain n) = OtherKind"

text \<open>
  \<open>t.Implements(error)\<close>: the interface itself, \<open>HandlerErr\<close> (its \<open>Error\<close> method has a
  value receiver, so the pointer type has it too), and the named types flagged so.
\<close>

fun implementsError :: "gotype \<Rightarrow> bool" where
  "implementsError TErrorIface = True"
| "implementsError THandlerErr = True"
| "implementsError (TImpl n e c) = e"
| "implementsError (TPtr THandlerErr) = True"
| "implementsError (TPtr (TImpl n e c)) = e"
| "implementsError t = False"

fun implementsContext :: "gotype \<Rightarrow> bool" where
  "implementsContext TContext = True"
| "implementsContext (TImpl n e c) = c"
| "implementsContext (TPtr (TImpl n e c)) = c"
| "implementsContext t = False"

text \<open>
  \<open>t.ConvertibleTo(ResponseFunc)\<close> for a type of kind \<open>Func\<close>: \<open>ResponseFunc\<close> is
  \<open>func(r *Response)\<close>, and a function type converts to it iff it is that type or has
  the same underlying type.
\<close>

fun convertibleToResponseFunc :: "gotype \<Rightarrow> bool" where
  "convertibleToResponseFunc TResponseFunc = True"
| "convertibleToResponseFunc (TFunc ins outs) = (ins = [TPtr TResponse] \<and> outs = [])"
| "convertibleToResponseFunc t = False"

text \<open>
  \<open>NumIn\<close>/\<open>In\<close> and \<open>NumOut\<close>/\<open>Out\<close>. reflect panics on a type that is not a function;
  \<open>parseHandler\<close> calls them only after its \<open>Kind\<close> check. The named function type
  \<open>ResponseFunc\<close> has one parameter and no result.
\<close>

fun funcIn :: "gotype \<Rightarrow> gotype list" where
  "funcIn (TFunc ins outs) = ins"
| "funcIn TResponseFunc = [TPtr TResponse]"
| "funcIn t = []"

fun funcOut :: "gotype \<Rightarrow> gotype list" where
  "funcOut (TFunc ins outs) = outs"
| "funcOut t = []"

fun Elem :: "gotype \<Rightarrow> gotype option" where
  "Elem (TSlice t) = Some t"
| "Elem (TPtr t) = Some t"
| "Elem t = None"

section \<open>The handler descriptor and its construction\<close>

datatype returnType = returnInvalid | returnPayload | returnOpts | returnErr

text \<open>The reasons for which \<open>parseHandler\<close> returns an error (and \<open>NewHandler\<close> panics).\<close>

datatype configError =
    NilHandler
  | NotAFunction
  | NoContextArgument
  | FirstArgumentNotContext
  | TooManyReturnValues
  | InvalidReturnType nat
  | ErrorNotLast
  | PayloadNotFirst

text \<open>
  The struct \<open>handler\<close>. \<open>fn\<close> is the candidate as handed to \<open>NewHandler\<close>: \<open>None\<close> is the
  nil interface, \<open>Some t\<close> a value of type \<open>t\<close>. \<open>ht\<close> and \<open>payloadType\<close> are unset
  (\<open>None\<close>) in the zero value. The positions \<open>errN\<close>, \<open>optsN\<close>, \<open>outN\<close> are Go \<open>int\<close>s,
  \<open>-1\<close> for absent.
\<close>

record handler =
  fn :: "gotype option"
  ht :: "gotype option"
  payloadType :: "gotype option"
  takesPayload :: bool
  errN :: int
  optsN :: int
  outN :: int

definition newHandlerStruct :: "gotype option \<Rightarrow> handler" where
  "newHandlerStruct f =
     \<lparr>fn = f, ht = None, payloadType = None, takesPayload = False,
      errN = 0, optsN = 0, outN = 0\<rparr>"

definition getReturnType :: "gotype \<Rightarrow> returnType" where
  "getReturnType ret =
     (if implementsError ret then returnErr
      else if Kind ret = Slice \<and> map_option Kind (Elem ret) = Some Func
              \<and> (case Elem ret of Some e \<Rightarrow> convertibleToResponseFunc e | None \<Rightarrow> False)
           then returnOpts
      else returnPayload)"

definition validateContext :: "gotype \<Rightarrow> configError option" where
  "validateContext arg =
     (if \<not> implementsContext arg then Some FirstArgumentNotContext else None)"

definition parsePayload :: "handler \<Rightarrow> gotype \<Rightarrow> configError + handler" where
  "parsePayload h t =
     (if length (funcIn t) \<noteq> 2 then Inr h
      else Inr (h\<lparr>takesPayload := True, payloadType := Some (funcIn t ! 1)\<rparr>))"

definition parseArgs :: "handler \<Rightarrow> gotype \<Rightarrow> configError + handler" where
  "parseArgs h t =
     (if length (funcIn t) = 0 then Inl NoContextArgument
      else case validateContext (funcIn t ! 0) of
             Some e \<Rightarrow> Inl e
           | None \<Rightarrow> parsePayload h t)"

text \<open>
  The loop \<open>for i := 0; i < n; i++\<close> of \<open>parseReturns\<close>, started at \<open>i\<close> with the
  result types from position \<open>i\<close> on still to be classified.
\<close>

fun classifyFrom :: "nat \<Rightarrow> gotype list \<Rightarrow> handler \<Rightarrow> configError + handler" where
  "classifyFrom i [] h = Inr h"
| "classifyFrom i (t # ts) h =
     (case getReturnType t of
        returnErr \<Rightarrow> classifyFrom (Suc i) ts (h\<lparr>errN := int i\<rparr>)
      | returnPayload \<Rightarrow> classifyFrom (Suc i) ts (h\<lparr>outN := int i\<rparr>)
      | returnOpts \<Rightarrow> classifyFrom (Suc i) ts (h\<lparr>optsN := int i\<rparr>)
      | returnInvalid \<Rightarrow> Inl (InvalidReturnType i))"

definition parseReturns :: "handler \<Rightarrow> gotype \<Rightarrow> configError + handler" where
  "parseReturns h0 t =
     (let h = h0\<lparr>errN := -1, outN := -1, optsN := -1\<rparr>;
          n = int (length (funcOut t))
      in if n = 0 then Inr h
         else if n > 3 then Inl TooManyReturnValues
         else case classifyFrom 0 (funcOut t) h of
                Inl e \<Rightarrow> Inl e
              | Inr h' \<Rightarrow>
                  if n > 1 \<and> errN h' \<ge> 0 \<and> errN h' < n - 1 then Inl ErrorNotLast
                  else if n > 0 \<and> outN h' \<ge> 0 \<and> outN h' \<noteq> 0 then Inl PayloadNotFirst
                  else Inr h')"

definition parseHandler :: "handler \<Rightarrow> configError + handler" where
  "parseHandler h =
     (case fn h of
        None \<Rightarrow> Inl NilHandler
      | Some handlerType \<Rightarrow>
          let h1 = h\<lparr>ht := Some handlerType\<rparr>
          in if Kind handlerType \<noteq> Func then Inl NotAFunction
             else (case parseArgs h1 handlerType of
                     Inl e \<Rightarrow> Inl e
                   | Inr h2 \<Rightarrow> parseReturns h2 handlerType))"

text \<open>
  \<open>NewHandler\<close> panics with the error of \<open>parseHandler\<close>, and returns the handler
  otherwise: \<open>Inl\<close> is the panic.
\<close>

definition NewHandler :: "gotype option \<Rightarrow> configError + handler" where
  "NewHandler f = parseHandler (newHandlerStruct f)"

text \<open>
  The position that the loop of \<open>parseReturns\<close> leaves in a role's field: the index of the
  last result type classified as \<open>r\<close> among \<open>ts\<close> (counted from \<open>i\<close>), or \<open>d\<close> when there
  is none.
\<close>

fun lastPos :: "returnType \<Rightarrow> nat \<Rightarrow> gotype list \<Rightarrow> int \<Rightarrow> int" where
  "lastPos r i [] d = d"
| "lastPos r i (t # ts) d = lastPos r (Suc i) ts (if getReturnType t = r then int i else d)"

text \<open>A slice of functions convertible to \<open>ResponseFunc\<close>, read off the type itself.\<close>

fun isCallbackSlice :: "gotype \<Rightarrow> bool" where
  "isCallbackSlice (TSlice e) = (Kind e = Func \<and> convertibleToResponseFunc e)"
| "isCallbackSlice t = False"

section \<open>Errors\<close>

text \<open>
  An \<open>error\<close> value is a \<open>HandlerErr{code, message, err}\<close>, a pointer to one (the type
  \<open>*HandlerErr\<close> has the methods of \<open>HandlerErr\<close>, which it calls on what it points to),
  the nil pointer of that type (a non-nil \<open>error\<close> whose methods dereference nil and
  panic), or any other error, of which only its \<open>Error()\<close> string and what \<open>Unwrap()\<close>
  returns matter here. An error has at most one cause: errors with several
  (\<open>Unwrap() []error\<close>) or with an \<open>As\<close> method of their own are not among these.
\<close>

datatype goerror =
    HandlerErr int string "goerror option"
  | HandlerErrPtr int string "goerror option"
  | NilHandlerErrPtr
  | OtherErr string "goerror option"

datatype 'a mayPanic = Panic | Done 'a

fun digits :: "nat \<Rightarrow> string" where
  "digits n =
     (if n < 10 then [''0123456789'' ! n]
      else digits (n div 10) @ [''0123456789'' ! (n mod 10)])"

declare digits.simps [simp del]

definition Sprintf_d :: "int \<Rightarrow> string" where
  "Sprintf_d i = (if i < 0 then ''-'' @ digits (nat (- i)) else digits (nat i))"

text \<open>The method \<open>Error() string\<close>; for \<open>HandlerErr\<close> it is \<open>Sprintf("%d: %s", code, message)\<close>.\<close>

fun errorString :: "goerror \<Rightarrow> string mayPanic" where
  "errorString (HandlerErr c m e) = Done (Sprintf_d c @ '': '' @ m)"
| "errorString (HandlerErrPtr c m e) = Done (Sprintf_d c @ '': '' @ m)"
| "errorString NilHandlerErrPtr = Panic"
| "errorString (OtherErr s e) = Done s"

fun Unwrap :: "goerror \<Rightarrow> goerror option mayPanic" where
  "Unwrap (HandlerErr c m e) = Done e"
| "Unwrap (HandlerErrPtr c m e) = Done e"
| "Unwrap NilHandlerErrPtr = Panic"
| "Unwrap (OtherErr s e) = Done e"

text \<open>
  How \<open>fmt\<close> prints an error operand: the text of \<open>Error()\<close>, and \<open><nil>\<close> for a nil
  pointer on which \<open>Error()\<close> panics.
\<close>

definition Sprint :: "goerror \<Rightarrow> string" where
  "Sprint e = (case errorString e of Panic \<Rightarrow> ''<nil>'' | Done s \<Rightarrow> s)"

text \<open>
  \<open>errors.As(err, &jErr)\<close> with \<open>jErr\<close> of type \<open>HandlerErr\<close>. It goes down the \<open>Unwrap\<close>
  chain of \<open>err\<close> and stops at the first value whose type is \<open>HandlerErr\<close>, giving its code
  and message; a \<open>*HandlerErr\<close> is of another type and is unwrapped like any other
  error, which panics when the pointer is nil.
\<close>

fun errorsAs :: "goerror \<Rightarrow> (int \<times> string) option mayPanic" where
  "errorsAs (HandlerErr c m e) = Done (Some (c, m))"
| "errorsAs NilHandlerErrPtr = Panic"
| "errorsAs (HandlerErrPtr c m None) = Done None"
| "errorsAs (HandlerErrPtr c m (Some e)) = errorsAs e"
| "errorsAs (OtherErr s None) = Done None"
| "errorsAs (OtherErr s (Some e)) = errorsAs e"

text \<open>
  The chain \<open>err, Unwrap(err), Unwrap(Unwrap(err)), ...\<close> up to the first nil cause, or
  up to a nil \<open>*HandlerErr\<close>, which cannot be unwrapped.
\<close>

fun unwrapChain :: "goerror \<Rightarrow> goerror list" where
  "unwrapChain (HandlerErr c m None) = [HandlerErr c m None]"
| "unwrapChain (HandlerErr c m (Some e)) = HandlerErr c m (Some e) # unwrapChain e"
| "unwrapChain (HandlerErrPtr c m None) = [HandlerErrPtr c m None]"
| "unwrapChain (HandlerErrPtr c m (Some e)) = HandlerErrPtr c m (Some e) # unwrapChain e"
| "unwrapChain NilHandlerErrPtr = [NilHandlerErrPtr]"
| "unwrapChain (OtherErr s None) = [OtherErr s None]"
| "unwrapChain (OtherErr s (Some e)) = OtherErr s (Some e) # unwrapChain e"

fun typedError :: "goerror \<Rightarrow> (int \<times> string) option" where
  "typedError (HandlerErr c m e) = Some (c, m)"
| "typedError e = None"

definition Error :: "int \<Rightarrow> string \<Rightarrow> goerror" where
  "Error c m = HandlerErr c m None"

text \<open>
  \<open>Errorf(code, format, a...)\<close> for the two shapes of format in use:
  \<open>Errorf c text None\<close> is a format without verbs, where \<open>fmt.Errorf\<close> wraps nothing;
  \<open>Errorf c text (Some e)\<close> is the format \<open>text\<close> followed by \<open>%w\<close> with operand \<open>e\<close>.
\<close>

definition Errorf :: "int \<Rightarrow> string \<Rightarrow> goerror option \<Rightarrow> goerror" where
  "Errorf c text wrapped =
     (case wrapped of
        None \<Rightarrow> HandlerErr c text None
      | Some e \<Rightarrow> HandlerErr c (text @ Sprint e) (Some e))"

section \<open>The response carrier\<close>

type_synonym header = "string \<rightharpoonup> string list"

text \<open>
  \<open>Response\<close>: \<open>hd'\<close> (the field \<open>hd\<close>) is the header map of the response writer itself
  (a Go map is a reference), a cookie is kept as the text \<open>cookie.String()\<close> that
  \<open>http.SetCookie\<close> would send. A \<open>ResponseFunc\<close> gets a pointer to the carrier: it is a
  function from the carrier it finds to the carrier it leaves.
\<close>

record Response =
  hd' :: header
  StatusCode :: int
  cookies :: "string list"

type_synonym ResponseFunc = "Response \<Rightarrow> Response"

definition Header :: "Response \<Rightarrow> header" where
  "Header r = hd' r"

definition SetCookie :: "Response \<Rightarrow> string \<Rightarrow> Response" where
  "SetCookie r cookie = r\<lparr>cookies := cookies r @ [cookie]\<rparr>"

section \<open>Request and response writer\<close>

text \<open>
  One request and its \<open>http.ResponseWriter\<close>. \<open>events\<close> lists, in order, what is done to
  the writer: each change of its header map (by the dispatcher or inside a callback),
  each \<open>WriteHeader\<close> and each \<open>Write\<close>. \<open>status\<close>, \<open>sentHeader\<close> and \<open>sentBody\<close> are what
  the client gets under the contract of \<open>net/http\<close>: the first \<open>WriteHeader\<close> fixes the
  status line and the headers as they are then, later ones change nothing, and a
  \<open>Write\<close> before any \<open>WriteHeader\<close> implies status 200. Header keys are in the
  canonical form that \<open>Header.Set\<close> gives them (\<open>content-type\<close> is \<open>Content-Type\<close>).
  \<open>bodyClosed\<close> counts \<open>r.Body.Close()\<close>, \<open>fnCalls\<close> the calls of the wrapped function.
\<close>

datatype event =
    HeaderSet string string
  | HeaderAdd string string
  | RunCallback
  | WriteHeaderCall int
  | WriteCall string

record exchange =
  reqBody :: string
  bodyClosed :: nat
  fnCalls :: nat
  header :: header
  status :: "int option"
  sentHeader :: header
  sentBody :: string
  events :: "event list"

text \<open>
  A step on an exchange returns, or panics; either way it leaves the exchange in some
  state. \<open>andThen\<close> runs the next step after one that returned, \<open>deferred\<close> is a deferred
  call, which also runs when the function panics.
\<close>

datatype outcome = Returned exchange | Panicked exchange

fun final :: "outcome \<Rightarrow> exchange" where
  "final (Returned x) = x"
| "final (Panicked x) = x"

fun andThen :: "outcome \<Rightarrow> (exchange \<Rightarrow> outcome) \<Rightarrow> outcome" where
  "andThen (Returned x) f = f x"
| "andThen (Panicked x) f = Panicked x"

fun deferred :: "(exchange \<Rightarrow> exchange) \<Rightarrow> outcome \<Rightarrow> outcome" where
  "deferred f (Returned x) = Returned (f x)"
| "deferred f (Panicked x) = Panicked (f x)"

definition nl :: char where
  "nl = CHR 0x0A"

definition commit :: "int \<Rightarrow> exchange \<Rightarrow> exchange" where
  "commit c x =
     (case status x of
        None \<Rightarrow> x\<lparr>status := Some c, sentHeader := header x\<rparr>
      | Some s \<Rightarrow> x)"

definition headerSet :: "string \<Rightarrow> string \<Rightarrow> exchange \<Rightarrow> exchange" where
  "headerSet k v x = x\<lparr>header := (header x)(k \<mapsto> [v]), events := events x @ [HeaderSet k v]\<rparr>"

definition headerAdd :: "string \<Rightarrow> string \<Rightarrow> exchange \<Rightarrow> exchange" where
  "headerAdd k v x =
     x\<lparr>header := (header x)(k \<mapsto> (case header x k of None \<Rightarrow> [] | Some vs \<Rightarrow> vs) @ [v]),
       events := events x @ [HeaderAdd k v]\<rparr>"

text \<open>
  \<open>WriteHeader(code)\<close> of the writers of \<open>net/http\<close> and \<open>httptest\<close>: a call after the
  first one is ignored; otherwise \<open>checkWriteHeaderCode\<close> panics unless the code has
  three digits, and then the status line is fixed.
\<close>

definition checkWriteHeaderCode :: "int \<Rightarrow> bool" where
  "checkWriteHeaderCode c = (100 \<le> c \<and> c \<le> 999)"

definition WriteHeader :: "int \<Rightarrow> exchange \<Rightarrow> outcome" where
  "WriteHeader c x =
     (let y = x\<lparr>events := events x @ [WriteHeaderCall c]\<rparr>
      in if status x \<noteq> None then Returned y
         else if \<not> checkWriteHeaderCode c then Panicked y
         else Returned (commit c y))"

definition Write :: "string \<Rightarrow> exchange \<Rightarrow> exchange" where
  "Write b x =
     (let y = commit 200 x
      in y\<lparr>sentBody := sentBody y @ b, events := events y @ [WriteCall b]\<rparr>)"

definition closeBody :: "exchange \<Rightarrow> exchange" where
  "closeBody x = x\<lparr>bodyClosed := Suc (bodyClosed x)\<rparr>"

text \<open>
  \<open>http.Error(w, msg, code)\<close>: plain-text content type, \<open>nosniff\<close>, the status, the
  message and a newline. \<open>http.SetCookie(w, c)\<close> adds a \<open>Set-Cookie\<close> header unless the
  cookie's text is empty. \<open>io.Copy(w, &buf)\<close> from a \<open>bytes.Buffer\<close> is one \<open>Write\<close> of the
  buffer's content, and none when the buffer is empty.
\<close>

definition httpError :: "exchange \<Rightarrow> string \<Rightarrow> int \<Rightarrow> outcome" where
  "httpError x msg c =
     andThen
       (WriteHeader c
         (headerSet ''X-Content-Type-Options'' ''nosniff''
           (headerSet ''Content-Type'' ''text/plain; charset=utf-8'' x)))
       (\<lambda>y. Returned (Write (msg @ [nl]) y))"

definition httpSetCookie :: "exchange \<Rightarrow> string \<Rightarrow> exchange" where
  "httpSetCookie x c = (if c \<noteq> [] then headerAdd ''Set-Cookie'' c x else x)"

definition ioCopy :: "string \<Rightarrow> exchange \<Rightarrow> exchange" where
  "ioCopy buf x = (if buf \<noteq> [] then Write buf x else x)"

section \<open>The dispatcher\<close>

text \<open>
  What \<open>Interface()\<close> gives for a value returned by the wrapped function: nil, a value
  of the payload type, a non-nil error, a \<open>[]ResponseFunc\<close>, or a slice of another
  function type (\<open>[]func(*Response)\<close>). \<open>writeJSON\<close> encodes either such a value or an
  \<open>errResp{Message: msg}\<close>.
\<close>

datatype 'r goval =
    VNil
  | VData 'r
  | VError goerror
  | VOpts "ResponseFunc list"
  | VFuncs "ResponseFunc list"

datatype 'r body = Value "'r goval" | errResp string

text \<open>
  What the dispatcher is run against: the JSON codec of \<open>encoding/json\<close> for the
  handler's payload and result types, and the wrapped function itself.
  \<open>jsonDecode b\<close> decodes the request body \<open>b\<close> into a new payload value or fails;
  \<open>jsonMarshalIndent prefix indent v\<close> is the indented JSON text of \<open>v\<close> or fails;
  \<open>jsonQuote s\<close> is the JSON string literal of \<open>s\<close>; \<open>hv b args\<close> are the values the
  function returns for the request with body \<open>b\<close> (which it can reach through its
  context) and the arguments \<open>args\<close> after the context.
\<close>

record ('p, 'r) env =
  jsonDecode :: "string \<Rightarrow> goerror + 'p"
  jsonMarshalIndent :: "string \<Rightarrow> string \<Rightarrow> 'r goval \<Rightarrow> string option"
  jsonQuote :: "string \<Rightarrow> string"
  hv :: "string \<Rightarrow> 'p list \<Rightarrow> 'r goval list"

text \<open>
  The encoder of \<open>writeJSON\<close>: \<open>SetIndent("", "  ")\<close>, then \<open>Encode(out)\<close>, which writes
  the document and a newline to the buffer, or nothing when marshalling fails. An
  \<open>errResp\<close> is a struct with the one string field \<open>error\<close> and always encodes.
\<close>

definition errRespDoc :: "('p, 'r) env \<Rightarrow> string \<Rightarrow> string" where
  "errRespDoc env msg =
     [CHR ''{'', nl] @ ''  '' @ [CHR 0x22] @ ''error'' @ [CHR 0x22] @ '': '' @ jsonQuote env msg
       @ [nl, CHR ''}'']"

definition Encode :: "('p, 'r) env \<Rightarrow> 'r body \<Rightarrow> string option" where
  "Encode env out =
     map_option (\<lambda>doc. doc @ [nl])
       (case out of
          errResp msg \<Rightarrow> Some (errRespDoc env msg)
        | Value v \<Rightarrow> jsonMarshalIndent env [] ''  '' v)"

text \<open>
  The loop \<open>for _, o := range opts { o(&res) }\<close>. The carrier's \<open>hd\<close> is the writer's
  header map: the callback finds in it what the writer has, and what it leaves there is
  the writer's.
\<close>

fun runOpts :: "ResponseFunc list \<Rightarrow> exchange \<Rightarrow> Response \<Rightarrow> exchange \<times> Response" where
  "runOpts [] x res = (x, res)"
| "runOpts (f # fs) x res =
     (let res' = f (res\<lparr>hd' := header x\<rparr>)
      in runOpts fs (x\<lparr>header := hd' res', events := events x @ [RunCallback]\<rparr>) res')"

definition writeJSON ::
  "('p, 'r) env \<Rightarrow> exchange \<Rightarrow> int \<Rightarrow> 'r body \<Rightarrow> ResponseFunc list \<Rightarrow> outcome" where
  "writeJSON env x c out opts =
     (let res = \<lparr>hd' = header x, StatusCode = c, cookies = []\<rparr>;
          enc = Encode env out;
          buf = (case enc of None \<Rightarrow> [] | Some b \<Rightarrow> b)
      in andThen
           (case enc of
              None \<Rightarrow> httpError x ''Internal error: Encoding response failed'' 500
            | Some b \<Rightarrow> Returned x)
           (\<lambda>x1.
              let (x2, res') = runOpts opts x1 res;
                  x3 = headerSet ''Content-Type'' ''application/json; charset=utf-8'' x2;
                  x4 = foldl httpSetCookie x3 (cookies res')
              in andThen (WriteHeader (StatusCode res') x4)
                   (\<lambda>x5. Returned (ioCopy buf x5))))"

text \<open>
  \<open>handleError\<close>: a panic of \<open>errors.As\<close> or of \<open>err.Error()\<close> leaves the writer as it is.
\<close>

definition handleError :: "('p, 'r) env \<Rightarrow> exchange \<Rightarrow> goerror \<Rightarrow> outcome" where
  "handleError env x e =
     (case errorsAs e of
        Panic \<Rightarrow> Panicked x
      | Done (Some (c, msg)) \<Rightarrow> writeJSON env x c (errResp msg) []
      | Done None \<Rightarrow>
          (case errorString e of
             Panic \<Rightarrow> Panicked x
           | Done msg \<Rightarrow> writeJSON env x 500 (errResp msg) []))"

text \<open>
  The section \<open>construct arguments\<close> of \<open>ServeHTTP\<close>: the arguments after the context,
  or the decode error.
\<close>

definition arguments :: "('p, 'r) env \<Rightarrow> handler \<Rightarrow> exchange \<Rightarrow> goerror + 'p list" where
  "arguments env h x =
     (if takesPayload h
      then (case jsonDecode env (reqBody x) of Inl e \<Rightarrow> Inl e | Inr pl \<Rightarrow> Inr [pl])
      else Inr [])"

text \<open>
  \<open>h.hv.Call(args)\<close>. reflect panics (\<open>None\<close>) unless there are as many arguments as the
  function has parameters and the context value can be assigned to the first
  parameter's type, which of the types here holds for \<open>context.Context\<close> only.
\<close>

definition Call ::
  "('p, 'r) env \<Rightarrow> handler \<Rightarrow> exchange \<Rightarrow> 'p list \<Rightarrow> 'r goval list option" where
  "Call env h x args =
     (case ht h of
        None \<Rightarrow> None
      | Some t \<Rightarrow>
          if length (funcIn t) = Suc (length args) \<and> funcIn t ! 0 = TContext
          then Some (hv env (reqBody x) args)
          else None)"

text \<open>\<open>responses[i]\<close> for a Go \<open>int\<close> \<open>i\<close>; out of range is a panic (\<open>None\<close>).\<close>

definition index :: "'a list \<Rightarrow> int \<Rightarrow> 'a option" where
  "index xs i = (if 0 \<le> i \<and> i < int (length xs) then Some (xs ! nat i) else None)"

text \<open>\<open>v, ok := x.(error)\<close>, and \<open>x.([]ResponseFunc)\<close>, which panics on any other type.\<close>

fun asError :: "'r goval \<Rightarrow> goerror option" where
  "asError (VError e) = Some e"
| "asError v = None"

fun asOpts :: "'r goval \<Rightarrow> ResponseFunc list option" where
  "asOpts (VOpts fs) = Some fs"
| "asOpts v = None"

text \<open>
  The section \<open>collect responses\<close> after the early return: \<open>out\<close>, \<open>err\<close> and \<open>opts\<close>, or a
  panic.
\<close>

definition collect ::
  "handler \<Rightarrow> 'r goval list \<Rightarrow> ('r goval \<times> goerror option \<times> ResponseFunc list) option" where
  "collect h responses =
     (case (if outN h \<ge> 0 then index responses (outN h) else Some VNil) of
        None \<Rightarrow> None
      | Some out \<Rightarrow>
          (case (if errN h \<ge> 0 then map_option asError (index responses (errN h))
                 else Some None) of
             None \<Rightarrow> None
           | Some err \<Rightarrow>
               (case (if optsN h \<ge> 0 then Option.bind (index responses (optsN h)) asOpts
                      else Some []) of
                  None \<Rightarrow> None
                | Some opts \<Rightarrow> Some (out, err, opts))))"

text \<open>
  \<open>ServeHTTP\<close>. On a decode error the body is closed by a deferred call, after the error
  response.
\<close>

definition ServeHTTP :: "('p, 'r) env \<Rightarrow> handler \<Rightarrow> exchange \<Rightarrow> outcome" where
  "ServeHTTP env h x =
     (case arguments env h x of
        Inl e \<Rightarrow>
          deferred closeBody (handleError env x (Errorf 400 ''Bad request: '' (Some e)))
      | Inr args \<Rightarrow>
          (let x1 = (if takesPayload h then closeBody x else x)
           in case Call env h x args of
                None \<Rightarrow> Panicked x1
              | Some responses \<Rightarrow>
                  (let x2 = x1\<lparr>fnCalls := Suc (fnCalls x1)\<rparr>
                   in if outN h < 0 \<and> errN h < 0 then WriteHeader 200 x2
                      else (case collect h responses of
                              None \<Rightarrow> Panicked x2
                            | Some (out, err, opts) \<Rightarrow>
                                (case err of
                                   Some e \<Rightarrow> handleError env x2 e
                                 | None \<Rightarrow> writeJSON env x2 200 (Value out) opts)))))"

section \<open>Notions used in the statements\<close>

text \<open>
  The carrier after the callbacks \<open>opts\<close> have run in order on a carrier for status \<open>c\<close>
  over the writer's headers; the \<open>Set-Cookie\<close> changes that the cookie loop makes.
\<close>

definition carrier :: "exchange \<Rightarrow> int \<Rightarrow> ResponseFunc list \<Rightarrow> Response" where
  "carrier x c opts = foldl (\<lambda>r f. f r) \<lparr>hd' = header x, StatusCode = c, cookies = []\<rparr> opts"

definition cookieEvents :: "string list \<Rightarrow> event list" where
  "cookieEvents cs = map (HeaderAdd ''Set-Cookie'') (filter (\<lambda>c. c \<noteq> []) cs)"

fun isHeaderChange :: "event \<Rightarrow> bool" where
  "isHeaderChange (WriteHeaderCall c) = False"
| "isHeaderChange (WriteCall b) = False"
| "isHeaderChange e = True"

fun isWriteHeader :: "event \<Rightarrow> bool" where
  "isWriteHeader (WriteHeaderCall c) = True"
| "isWriteHeader e = False"

fun isWrite :: "event \<Rightarrow> bool" where
  "isWrite (WriteCall b) = True"
| "isWrite e = False"


text \<open>
  The exchange once the wrapped function has been called: the body closed if a payload
  was decoded from it, and one more call.
\<close>

definition afterCall :: "handler \<Rightarrow> exchange \<Rightarrow> exchange" where
  "afterCall h x = (if takesPayload h then closeBody x else x)\<lparr>fnCalls := Suc (fnCalls x)\<rparr>"

text \<open>The exchange just before \<open>writeJSON\<close> calls \<open>WriteHeader\<close>, when encoding succeeded.\<close>

definition beforeWriteHeader :: "exchange \<Rightarrow> int \<Rightarrow> ResponseFunc list \<Rightarrow> exchange" where
  "beforeWriteHeader x c opts =
     foldl httpSetCookie
       (headerSet ''Content-Type'' ''application/json; charset=utf-8''
          (x\<lparr>header := hd' (carrier x c opts),
             events := events x @ replicate (length opts) RunCallback\<rparr>))
       (cookies (carrier x c opts))"

text \<open>
  The bytes of the error response for a message \<open>m\<close>, with \<open>q\<close> the codec's rendering of
  a string: an object with the one field \<open>error\<close>, indented by two spaces, and a newline.
\<close>

definition errorDocument :: "(string \<Rightarrow> string) \<Rightarrow> string \<Rightarrow> string" where
  "errorDocument q m =
     [CHR ''{'', CHR 0x0A, CHR '' '', CHR '' '', CHR 0x22] @ ''error'' @ [CHR 0x22, CHR '':'', CHR '' '']
       @ q m @ [CHR 0x0A, CHR ''}'', CHR 0x0A]"




section \<open>Example handlers\<close>

text \<open>
  A codec for a result type that is a string or a channel: a request body decodes when
  it is a string literal between double quotes, strings marshal to such a literal, nil
  to \<open>null\<close>, and channels and functions do not marshal.
\<close>

datatype sample = SString string | SChan

definition exampleQuote :: "string \<Rightarrow> string" where
  "exampleQuote s = [CHR 0x22] @ s @ [CHR 0x22]"

definition exampleDecode :: "string \<Rightarrow> goerror + string" where
  "exampleDecode b =
     (if 2 \<le> length b \<and> b ! 0 = CHR 0x22 \<and> last b = CHR 0x22 then Inr (butlast (tl b))
      else Inl (OtherErr ''json: cannot unmarshal into Go value of type string'' None))"

fun exampleMarshal :: "string \<Rightarrow> string \<Rightarrow> sample goval \<Rightarrow> string option" where
  "exampleMarshal prefix indent VNil = Some ''null''"
| "exampleMarshal prefix indent (VData (SString s)) = Some (exampleQuote s)"
| "exampleMarshal prefix indent v = None"

definition exampleEnv :: "(string \<Rightarrow> string list \<Rightarrow> sample goval list) \<Rightarrow> (string, sample) env" where
  "exampleEnv f =
     \<lparr>jsonDecode = exampleDecode, jsonMarshalIndent = exampleMarshal,
      jsonQuote = exampleQuote, hv = f\<rparr>"

definition newExchange :: "string \<Rightarrow> exchange" where
  "newExchange b =
     \<lparr>reqBody = b, bodyClosed = 0, fnCalls = 0, header = Map.empty, status = None,
      sentHeader = Map.empty, sentBody = [], events = []\<rparr>"

text \<open>The descriptor that \<open>NewHandler\<close> builds for a function type with returns at the given positions.\<close>

definition descriptor :: "gotype \<Rightarrow> int \<Rightarrow> int \<Rightarrow> int \<Rightarrow> handler" where
  "descriptor t e opt out =
     \<lparr>fn = Some t, ht = Some t,
      payloadType = (if length (funcIn t) = 2 then Some (funcIn t ! 1) else None),
      takesPayload = (length (funcIn t) = 2), errN = e, optsN = opt, outN = out\<rparr>"

text \<open>
  Bodies of wrapped functions: one that returns nothing, \<open>hello\<close> of the tests, one that
  returns \<open>"ok"\<close> and a callback setting status 201, one that returns that callback
  alone, one that returns the error \<open>Errorf(502, "Bad gateway")\<close>, one that returns a
  channel, one that returns two errors of which the first is not nil, and further down
  one that returns \<open>"ok"\<close> and callbacks as a \<open>[]func(*Response)\<close>, one that returns
  \<open>"ok"\<close> and a callback setting status 0, one that returns \<open>Error(99, "x")\<close>, and one
  that returns a non-nil error, no callbacks and a nil error.
\<close>

definition setCreated :: ResponseFunc where
  "setCreated r = r\<lparr>StatusCode := 201\<rparr>"

definition returnsNothing :: "string \<Rightarrow> string list \<Rightarrow> sample goval list" where
  "returnsNothing b args = []"

definition hello :: "string \<Rightarrow> string list \<Rightarrow> sample goval list" where
  "hello b args = [VData (SString (''hello '' @ concat args))]"

definition okCreated :: "string \<Rightarrow> string list \<Rightarrow> sample goval list" where
  "okCreated b args = [VData (SString ''ok''), VOpts [setCreated]]"

definition onlyCreated :: "string \<Rightarrow> string list \<Rightarrow> sample goval list" where
  "onlyCreated b args = [VOpts [setCreated]]"

definition badGateway :: "string \<Rightarrow> string list \<Rightarrow> sample goval list" where
  "badGateway b args = [VError (Errorf 502 ''Bad gateway'' None)]"

definition returnsChan :: "string \<Rightarrow> string list \<Rightarrow> sample goval list" where
  "returnsChan b args = [VData SChan]"

definition twoErrors :: "string \<Rightarrow> string list \<Rightarrow> sample goval list" where
  "twoErrors b args = [VError (OtherErr ''disk full'' None), VNil]"

definition okPlain :: "string \<Rightarrow> string list \<Rightarrow> sample goval list" where
  "okPlain b args = [VData (SString ''ok''), VFuncs [setCreated]]"

definition setZero :: ResponseFunc where
  "setZero r = r\<lparr>StatusCode := 0\<rparr>"

definition okZero :: "string \<Rightarrow> string list \<Rightarrow> sample goval list" where
  "okZero b args = [VData (SString ''ok''), VOpts [setZero]]"

definition code99 :: "string \<Rightarrow> string list \<Rightarrow> sample goval list" where
  "code99 b args = [VError (Error 99 ''x'')]"

definition errorBeforeCallbacks :: "string \<Rightarrow> string list \<Rightarrow> sample goval list" where
  "errorBeforeCallbacks b args = [VError (OtherErr ''disk full'' None), VOpts [], VNil]"

section \<open>Facts about construction\<close>

lemma getReturnType_valid: "getReturnType t \<noteq> returnInvalid"
  by (simp add: getReturnType_def)

lemma isCallbackSlice_eq:
  "(Kind t = Slice \<and> map_option Kind (Elem t) = Some Func
      \<and> (case Elem t of Some e \<Rightarrow> convertibleToResponseFunc e | None \<Rightarrow> False))
     = isCallbackSlice t"
  by (cases t) simp_all

lemma getReturnType_eq:
  "getReturnType t =
     (if implementsError t then returnErr
      else if isCallbackSlice t then returnOpts else returnPayload)"
  unfolding getReturnType_def isCallbackSlice_eq ..

lemma classifyFrom_eq:
  "classifyFrom i ts h =
     Inr (h\<lparr>errN := lastPos returnErr i ts (errN h),
            optsN := lastPos returnOpts i ts (optsN h),
            outN := lastPos returnPayload i ts (outN h)\<rparr>)"
proof (induction ts arbitrary: i h)
  case Nil
  show ?case by simp
next
  case (Cons t ts)
  show ?case
    using getReturnType_valid [of t]
    by (cases "getReturnType t") (simp_all add: Cons.IH)
qed

lemma lastPos_absent:
  "r \<notin> getReturnType ` set ts \<Longrightarrow> lastPos r i ts d = d"
  by (induction ts arbitrary: i d) auto

lemma lastPos_bounds:
  "r \<in> getReturnType ` set ts \<Longrightarrow>
     int i \<le> lastPos r i ts d \<and> lastPos r i ts d < int i + int (length ts)"
proof (induction ts arbitrary: i d)
  case Nil
  then show ?case by simp
next
  case (Cons t ts)
  show ?case
  proof (cases "r \<in> getReturnType ` set ts")
    case True
    from Cons.IH [OF True, of "Suc i" "if getReturnType t = r then int i else d"]
    show ?thesis by simp
  next
    case False
    with Cons.prems have "getReturnType t = r" by auto
    with False show ?thesis by (simp add: lastPos_absent)
  qed
qed

lemma lastPos_snoc:
  "lastPos r i (ts @ [t]) d =
     (if getReturnType t = r then int (i + length ts) else lastPos r i ts d)"
  by (induction ts arbitrary: i d) auto

lemma parseReturns_eq:
  "parseReturns h0 t =
     (let ts = funcOut t; n = int (length ts);
          e = lastPos returnErr 0 ts (-1);
          p = lastPos returnPayload 0 ts (-1);
          h' = h0\<lparr>errN := e, optsN := lastPos returnOpts 0 ts (-1), outN := p\<rparr>
      in if n = 0 then Inr h'
         else if n > 3 then Inl TooManyReturnValues
         else if n > 1 \<and> e \<ge> 0 \<and> e < n - 1 then Inl ErrorNotLast
         else if p \<ge> 0 \<and> p \<noteq> 0 then Inl PayloadNotFirst
         else Inr h')"
  by (cases "funcOut t") (simp_all add: parseReturns_def classifyFrom_eq Let_def del: classifyFrom.simps)

lemma error_not_last_rejected:
  assumes "2 \<le> length (funcOut t)"
    and "returnErr \<in> getReturnType ` set (funcOut t)"
    and "getReturnType (last (funcOut t)) \<noteq> returnErr"
  shows "isl (parseReturns h t)"
proof -
  from assms(1) obtain ts u where outs: "funcOut t = ts @ [u]"
    by (cases "funcOut t" rule: rev_cases) auto
  with assms(3) have u: "getReturnType u \<noteq> returnErr" by simp
  with assms(2) outs have mem: "returnErr \<in> getReturnType ` set ts" by auto
  have pos: "lastPos returnErr 0 (funcOut t) (-1) = lastPos returnErr 0 ts (-1)"
    using u by (simp add: outs lastPos_snoc)
  from lastPos_bounds [OF mem, of 0 "-1"] pos
  have "0 \<le> lastPos returnErr 0 (funcOut t) (-1)"
    and "lastPos returnErr 0 (funcOut t) (-1) < int (length (funcOut t)) - 1"
    by (simp_all add: outs)
  moreover from assms(1) have "funcOut t \<noteq> []" by auto
  ultimately show ?thesis
    by (simp add: parseReturns_eq Let_def)
qed

lemma payload_not_first_rejected:
  assumes "returnPayload \<in> getReturnType ` set (tl (funcOut t))"
  shows "isl (parseReturns h t)"
proof -
  from assms obtain u ts where outs: "funcOut t = u # ts"
    by (cases "funcOut t") auto
  with assms have mem: "returnPayload \<in> getReturnType ` set ts" by simp
  from lastPos_bounds [OF mem, of 1 "if getReturnType u = returnPayload then 0 else -1"]
  have "1 \<le> lastPos returnPayload 0 (funcOut t) (-1)"
    by (simp add: outs split: if_splits)
  then show ?thesis
    by (simp add: parseReturns_eq Let_def outs)
qed

lemma NewHandler_fails_if_returns_fail:
  "(\<And>h. isl (parseReturns h t)) \<Longrightarrow> isl (NewHandler (Some t))"
  by (auto simp: NewHandler_def parseHandler_def newHandlerStruct_def Let_def split: sum.splits)

lemma NewHandler_func:
  "NewHandler (Some (TFunc ins outs)) =
     (if ins = [] then Inl NoContextArgument
      else if \<not> implementsContext (ins ! 0) then Inl FirstArgumentNotContext
      else parseReturns (descriptor (TFunc ins outs) 0 0 0) (TFunc ins outs))"
  by (simp add: NewHandler_def parseHandler_def newHandlerStruct_def parseArgs_def
        validateContext_def parsePayload_def descriptor_def)

lemma parseReturns_not_invalid: "parseReturns h t \<noteq> Inl (InvalidReturnType i)"
  by (simp add: parseReturns_eq Let_def)

lemma NewHandler_not_invalid: "NewHandler f \<noteq> Inl (InvalidReturnType i)"
  by (auto simp: NewHandler_def parseHandler_def parseArgs_def validateContext_def
        parsePayload_def Let_def parseReturns_not_invalid split: option.splits)

text \<open>
  Construction fails whenever an error-role result exists and the last result is not
  one, and whenever a result after the first is a payload-role result.
\<close>

lemma last_not_role_rejected:
  "(2 \<le> length outs \<and> returnErr \<in> getReturnType ` set outs
      \<and> getReturnType (last outs) \<noteq> returnErr
      \<longrightarrow> isl (NewHandler (Some (TFunc ins outs))))
   \<and> (returnPayload \<in> getReturnType ` set (tl outs)
      \<longrightarrow> isl (NewHandler (Some (TFunc ins outs))))"
proof (intro conjI impI)
  assume "2 \<le> length outs \<and> returnErr \<in> getReturnType ` set outs
      \<and> getReturnType (last outs) \<noteq> returnErr"
  then have "\<And>h. isl (parseReturns h (TFunc ins outs))"
    by (intro error_not_last_rejected) simp_all
  then show "isl (NewHandler (Some (TFunc ins outs)))"
    by (rule NewHandler_fails_if_returns_fail)
next
  assume "returnPayload \<in> getReturnType ` set (tl outs)"
  then have "\<And>h. isl (parseReturns h (TFunc ins outs))"
    by (intro payload_not_first_rejected) simp
  then show "isl (NewHandler (Some (TFunc ins outs)))"
    by (rule NewHandler_fails_if_returns_fail)
qed

section \<open>Facts about the response writer and \<open>writeJSON\<close>\<close>

lemma commit_fields:
  "events (commit c x) = events x"
  "bodyClosed (commit c x) = bodyClosed x"
  "fnCalls (commit c x) = fnCalls x"
  "reqBody (commit c x) = reqBody x"
  "header (commit c x) = header x"
  "sentBody (commit c x) = sentBody x"
  "status (commit c x) = Some (case status x of None \<Rightarrow> c | Some s \<Rightarrow> s)"
  "sentHeader (commit c x) = (case status x of None \<Rightarrow> header x | Some s \<Rightarrow> sentHeader x)"
  by (simp_all add: commit_def split: option.splits)

lemma WriteHeader_returns:
  "status x \<noteq> None \<or> checkWriteHeaderCode c \<Longrightarrow>
     WriteHeader c x = Returned (final (WriteHeader c x))"
  by (auto simp: WriteHeader_def Let_def)

lemma WriteHeader_panics:
  "status x = None \<Longrightarrow> \<not> checkWriteHeaderCode c \<Longrightarrow>
     WriteHeader c x = Panicked (x\<lparr>events := events x @ [WriteHeaderCall c]\<rparr>)"
  by (simp add: WriteHeader_def Let_def)

lemma WriteHeader_ignored:
  "status x = Some s \<Longrightarrow> WriteHeader c x = Returned (x\<lparr>events := events x @ [WriteHeaderCall c]\<rparr>)"
  by (simp add: WriteHeader_def Let_def)

lemma WriteHeader_fields:
  "events (final (WriteHeader c x)) = events x @ [WriteHeaderCall c]"
  "bodyClosed (final (WriteHeader c x)) = bodyClosed x"
  "fnCalls (final (WriteHeader c x)) = fnCalls x"
  "reqBody (final (WriteHeader c x)) = reqBody x"
  "header (final (WriteHeader c x)) = header x"
  "sentBody (final (WriteHeader c x)) = sentBody x"
  "status (final (WriteHeader c x)) =
     (case status x of Some s \<Rightarrow> Some s
      | None \<Rightarrow> if checkWriteHeaderCode c then Some c else None)"
  "sentHeader (final (WriteHeader c x)) =
     (case status x of Some s \<Rightarrow> sentHeader x
      | None \<Rightarrow> if checkWriteHeaderCode c then header x else sentHeader x)"
  by (auto simp: WriteHeader_def Let_def commit_def split: option.splits)

lemma Write_fields:
  "events (Write b x) = events x @ [WriteCall b]"
  "bodyClosed (Write b x) = bodyClosed x"
  "fnCalls (Write b x) = fnCalls x"
  "reqBody (Write b x) = reqBody x"
  "header (Write b x) = header x"
  "sentBody (Write b x) = sentBody x @ b"
  "status (Write b x) = Some (case status x of None \<Rightarrow> 200 | Some s \<Rightarrow> s)"
  "sentHeader (Write b x) = (case status x of None \<Rightarrow> header x | Some s \<Rightarrow> sentHeader x)"
  by (simp_all add: Write_def Let_def commit_fields)

lemma headerSet_fields:
  "events (headerSet k v x) = events x @ [HeaderSet k v]"
  "bodyClosed (headerSet k v x) = bodyClosed x"
  "fnCalls (headerSet k v x) = fnCalls x"
  "reqBody (headerSet k v x) = reqBody x"
  "header (headerSet k v x) = (header x)(k \<mapsto> [v])"
  "sentBody (headerSet k v x) = sentBody x"
  "status (headerSet k v x) = status x"
  "sentHeader (headerSet k v x) = sentHeader x"
  by (simp_all add: headerSet_def)

lemma closeBody_fields:
  "events (closeBody x) = events x"
  "bodyClosed (closeBody x) = Suc (bodyClosed x)"
  "fnCalls (closeBody x) = fnCalls x"
  "reqBody (closeBody x) = reqBody x"
  "header (closeBody x) = header x"
  "sentBody (closeBody x) = sentBody x"
  "status (closeBody x) = status x"
  "sentHeader (closeBody x) = sentHeader x"
  by (simp_all add: closeBody_def)

lemma setCookies_fields:
  "status (foldl httpSetCookie x cs) = status x"
  "sentHeader (foldl httpSetCookie x cs) = sentHeader x"
  "sentBody (foldl httpSetCookie x cs) = sentBody x"
  "bodyClosed (foldl httpSetCookie x cs) = bodyClosed x"
  "fnCalls (foldl httpSetCookie x cs) = fnCalls x"
  "reqBody (foldl httpSetCookie x cs) = reqBody x"
  "events (foldl httpSetCookie x cs) = events x @ cookieEvents cs"
  "header (foldl httpSetCookie x cs) ''Content-Type'' = header x ''Content-Type''"
  by (induction cs arbitrary: x; simp add: httpSetCookie_def headerAdd_def cookieEvents_def)+

lemmas writer_fields = WriteHeader_fields Write_fields headerSet_fields setCookies_fields

lemma cookieEvents_header: "\<forall>e \<in> set (cookieEvents cs). isHeaderChange e"
  by (auto simp: cookieEvents_def)

lemma final_andThen_Returned:
  "o1 = Returned (final o1) \<Longrightarrow> andThen o1 (\<lambda>y. Returned (f y)) = Returned (f (final o1))"
  by (cases o1) simp_all

lemma final_andThen_bodyClosed:
  "(\<And>y. bodyClosed (g y) = bodyClosed y) \<Longrightarrow>
     bodyClosed (final (andThen o1 (\<lambda>y. Returned (g y)))) = bodyClosed (final o1)"
  by (cases o1) simp_all

lemma final_andThen_fnCalls:
  "(\<And>y. fnCalls (g y) = fnCalls y) \<Longrightarrow>
     fnCalls (final (andThen o1 (\<lambda>y. Returned (g y)))) = fnCalls (final o1)"
  by (cases o1) simp_all

lemma httpError_returns:
  "checkWriteHeaderCode c \<Longrightarrow>
   httpError x msg c =
     Returned (Write (msg @ [nl])
       (final (WriteHeader c
         (headerSet ''X-Content-Type-Options'' ''nosniff''
           (headerSet ''Content-Type'' ''text/plain; charset=utf-8'' x)))))"
  unfolding httpError_def
  by (rule final_andThen_Returned, rule WriteHeader_returns) simp

lemma Encode_nonempty: "Encode env out = Some b \<Longrightarrow> b \<noteq> []"
  by (auto simp: Encode_def)

lemma Encode_errResp: "Encode env (errResp m) = Some (errRespDoc env m @ [nl])"
  by (simp add: Encode_def)

lemma errRespDoc_explicit: "errRespDoc env m @ [nl] = errorDocument (jsonQuote env) m"
  by (simp add: errRespDoc_def errorDocument_def nl_def)

lemma runOpts_synced:
  "hd' res = header x \<Longrightarrow>
   runOpts fs x res =
     (x\<lparr>header := hd' (foldl (\<lambda>r f. f r) res fs),
        events := events x @ replicate (length fs) RunCallback\<rparr>,
      foldl (\<lambda>r f. f r) res fs)"
proof (induction fs arbitrary: x res)
  case Nil
  then show ?case by simp
next
  case (Cons f fs)
  have "res\<lparr>hd' := header x\<rparr> = res" using Cons.prems by simp
  then show ?case
    by (simp add: Cons.IH Let_def replicate_app_Cons_same)
qed

lemma runOpts_any:
  "runOpts fs x res =
     (x\<lparr>header := (if fs = [] then header x else hd' (foldl (\<lambda>r f. f r) (res\<lparr>hd' := header x\<rparr>) fs)),
        events := events x @ replicate (length fs) RunCallback\<rparr>,
      (if fs = [] then res else foldl (\<lambda>r f. f r) (res\<lparr>hd' := header x\<rparr>) fs))"
proof (cases fs)
  case Nil
  then show ?thesis by simp
next
  case (Cons f gs)
  show ?thesis
    by (simp add: Cons Let_def runOpts_synced replicate_app_Cons_same)
qed


lemma carrier_Nil: "carrier x c [] = \<lparr>hd' = header x, StatusCode = c, cookies = []\<rparr>"
  by (simp add: carrier_def)

lemma beforeWriteHeader_fields:
  "status (beforeWriteHeader x c opts) = status x"
  "sentHeader (beforeWriteHeader x c opts) = sentHeader x"
  "sentBody (beforeWriteHeader x c opts) = sentBody x"
  "bodyClosed (beforeWriteHeader x c opts) = bodyClosed x"
  "fnCalls (beforeWriteHeader x c opts) = fnCalls x"
  "events (beforeWriteHeader x c opts) =
     events x @ replicate (length opts) RunCallback
       @ [HeaderSet ''Content-Type'' ''application/json; charset=utf-8'']
       @ cookieEvents (cookies (carrier x c opts))"
  "header (beforeWriteHeader x c opts) ''Content-Type''
     = Some [''application/json; charset=utf-8'']"
  by (simp_all add: beforeWriteHeader_def setCookies_fields headerSet_fields)

lemma writeJSON_encoded:
  assumes "Encode env out = Some b"
  shows "writeJSON env x c out opts =
           andThen (WriteHeader (StatusCode (carrier x c opts)) (beforeWriteHeader x c opts))
             (\<lambda>x5. Returned (Write b x5))"
  using Encode_nonempty [OF assms]
  by (simp add: writeJSON_def assms Let_def runOpts_synced carrier_def ioCopy_def
        beforeWriteHeader_def)

lemma writeJSON_encoded_returns:
  assumes "Encode env out = Some b"
    and "status x \<noteq> None \<or> checkWriteHeaderCode (StatusCode (carrier x c opts))"
  shows "writeJSON env x c out opts =
           Returned (Write b (final (WriteHeader (StatusCode (carrier x c opts))
                                       (beforeWriteHeader x c opts))))"
  unfolding writeJSON_encoded [OF assms(1)]
  by (rule final_andThen_Returned, rule WriteHeader_returns)
     (use assms(2) in \<open>simp add: beforeWriteHeader_fields\<close>)

lemma writeJSON_encoded_panics:
  assumes "Encode env out = Some b"
    and "status x = None" and "\<not> checkWriteHeaderCode (StatusCode (carrier x c opts))"
  shows "writeJSON env x c out opts =
           Panicked ((beforeWriteHeader x c opts)
             \<lparr>events := events (beforeWriteHeader x c opts)
                          @ [WriteHeaderCall (StatusCode (carrier x c opts))]\<rparr>)"
  unfolding writeJSON_encoded [OF assms(1)]
  using assms(2,3) by (simp add: WriteHeader_panics beforeWriteHeader_fields)

lemma writeJSON_encoded_Returned:
  assumes "Encode env out = Some b" and "writeJSON env x c out opts = Returned x'"
  shows "x' = Write b (final (WriteHeader (StatusCode (carrier x c opts))
                                (beforeWriteHeader x c opts)))"
proof (cases "status x \<noteq> None \<or> checkWriteHeaderCode (StatusCode (carrier x c opts))")
  case True
  from writeJSON_encoded_returns [OF assms(1) True] assms(2) show ?thesis by simp
next
  case False
  then have "status x = None" "\<not> checkWriteHeaderCode (StatusCode (carrier x c opts))" by auto
  from writeJSON_encoded_panics [OF assms(1) this] assms(2) show ?thesis by simp
qed

lemma writeJSON_after_failure:
  assumes "status x1 = Some s"
  shows "\<exists>y. (let (x2, res') = runOpts opts x1 res;
                 x3 = headerSet ''Content-Type'' ''application/json; charset=utf-8'' x2;
                 x4 = foldl httpSetCookie x3 (cookies res')
             in andThen (WriteHeader (StatusCode res') x4) (\<lambda>x5. Returned (ioCopy [] x5)))
            = Returned y
          \<and> status y = Some s \<and> sentHeader y = sentHeader x1 \<and> sentBody y = sentBody x1
          \<and> bodyClosed y = bodyClosed x1 \<and> fnCalls y = fnCalls x1"
proof -
  obtain x2 res' where r: "runOpts opts x1 res = (x2, res')" by (cases "runOpts opts x1 res")
  then have x2: "status x2 = Some s" "sentHeader x2 = sentHeader x1" "sentBody x2 = sentBody x1"
       "bodyClosed x2 = bodyClosed x1" "fnCalls x2 = fnCalls x1"
    using assms by (auto simp: runOpts_any)
  let ?x4 = "foldl httpSetCookie
               (headerSet ''Content-Type'' ''application/json; charset=utf-8'' x2) (cookies res')"
  have x4: "status ?x4 = Some s" "sentHeader ?x4 = sentHeader x1" "sentBody ?x4 = sentBody x1"
       "bodyClosed ?x4 = bodyClosed x1" "fnCalls ?x4 = fnCalls x1"
    by (simp_all add: setCookies_fields headerSet_fields x2)
  show ?thesis
    by (simp add: r Let_def WriteHeader_ignored [OF x4(1)] ioCopy_def x4)
qed

lemma writeJSON_failed_fields:
  assumes "Encode env out = None"
  shows "writeJSON env x c out opts = Returned (final (writeJSON env x c out opts))"
    and "bodyClosed (final (writeJSON env x c out opts)) = bodyClosed x"
    and "fnCalls (final (writeJSON env x c out opts)) = fnCalls x"
    and "status x = None \<Longrightarrow> status (final (writeJSON env x c out opts)) = Some 500"
    and "status x = None \<Longrightarrow>
           sentBody (final (writeJSON env x c out opts))
             = sentBody x @ ''Internal error: Encoding response failed'' @ [nl]"
    and "status x = None \<Longrightarrow>
           sentHeader (final (writeJSON env x c out opts)) ''Content-Type''
             = Some [''text/plain; charset=utf-8'']"
proof -
  let ?x0 = "headerSet ''X-Content-Type-Options'' ''nosniff''
               (headerSet ''Content-Type'' ''text/plain; charset=utf-8'' x)"
  let ?x1 = "Write (''Internal error: Encoding response failed'' @ [nl])
               (final (WriteHeader 500 ?x0))"
  let ?s = "case status x of None \<Rightarrow> 500 | Some s \<Rightarrow> s"
  have st: "status ?x1 = Some ?s"
    by (simp add: writer_fields checkWriteHeaderCode_def split: option.splits)
  have he: "httpError x ''Internal error: Encoding response failed'' 500 = Returned ?x1"
    by (rule httpError_returns) (simp add: checkWriteHeaderCode_def)
  from writeJSON_after_failure [OF st, of opts "\<lparr>hd' = header x, StatusCode = c, cookies = []\<rparr>"]
  obtain y where y: "writeJSON env x c out opts = Returned y"
      "status y = Some ?s" "sentHeader y = sentHeader ?x1" "sentBody y = sentBody ?x1"
      "bodyClosed y = bodyClosed ?x1" "fnCalls y = fnCalls ?x1"
    by (auto simp: writeJSON_def assms he Let_def)
  show "writeJSON env x c out opts = Returned (final (writeJSON env x c out opts))"
    by (simp add: y)
  show "bodyClosed (final (writeJSON env x c out opts)) = bodyClosed x"
    by (simp add: y writer_fields)
  show "fnCalls (final (writeJSON env x c out opts)) = fnCalls x"
    by (simp add: y writer_fields)
  show "status (final (writeJSON env x c out opts)) = Some 500" if "status x = None"
    using that by (simp add: y)
  show "sentBody (final (writeJSON env x c out opts))
          = sentBody x @ ''Internal error: Encoding response failed'' @ [nl]" if "status x = None"
    by (simp add: y writer_fields)
  show "sentHeader (final (writeJSON env x c out opts)) ''Content-Type''
          = Some [''text/plain; charset=utf-8'']" if "status x = None"
    using that by (simp add: y writer_fields checkWriteHeaderCode_def)
qed

lemma writeJSON_counts:
  "bodyClosed (final (writeJSON env x c out opts)) = bodyClosed x"
  "fnCalls (final (writeJSON env x c out opts)) = fnCalls x"
proof -
  show "bodyClosed (final (writeJSON env x c out opts)) = bodyClosed x"
  proof (cases "Encode env out")
    case None
    then show ?thesis by (rule writeJSON_failed_fields)
  next
    case (Some b)
    show ?thesis
      by (simp add: writeJSON_encoded [OF Some] final_andThen_bodyClosed writer_fields
            beforeWriteHeader_fields)
  qed
  show "fnCalls (final (writeJSON env x c out opts)) = fnCalls x"
  proof (cases "Encode env out")
    case None
    then show ?thesis by (rule writeJSON_failed_fields)
  next
    case (Some b)
    show ?thesis
      by (simp add: writeJSON_encoded [OF Some] final_andThen_fnCalls writer_fields
            beforeWriteHeader_fields)
  qed
qed

lemma writeJSON_errResp:
  assumes "status x = None" and "checkWriteHeaderCode c"
  shows "\<exists>x'. writeJSON env x c (errResp m) [] = Returned x'
           \<and> status x' = Some c
           \<and> sentBody x' = sentBody x @ errRespDoc env m @ [nl]
           \<and> sentHeader x' ''Content-Type'' = Some [''application/json; charset=utf-8'']
           \<and> events x' =
               events x @ [HeaderSet ''Content-Type'' ''application/json; charset=utf-8'',
                           WriteHeaderCall c, WriteCall (errRespDoc env m @ [nl])]
           \<and> bodyClosed x' = bodyClosed x \<and> fnCalls x' = fnCalls x"
  using assms
  by (simp add: writeJSON_encoded_returns [OF Encode_errResp] writer_fields
        beforeWriteHeader_fields carrier_Nil cookieEvents_def)

lemma writeJSON_errResp_panics:
  assumes "status x = None" and "\<not> checkWriteHeaderCode c"
  shows "\<exists>x'. writeJSON env x c (errResp m) [] = Panicked x'
           \<and> status x' = None \<and> sentBody x' = sentBody x
           \<and> bodyClosed x' = bodyClosed x \<and> fnCalls x' = fnCalls x"
  using assms
  by (simp add: writeJSON_encoded_panics [OF Encode_errResp] beforeWriteHeader_fields carrier_Nil)

lemma writeJSON_errResp_events:
  assumes "writeJSON env x c (errResp m) [] = Returned x'"
  shows "\<exists>b. events x' =
               events x @ [HeaderSet ''Content-Type'' ''application/json; charset=utf-8'']
                 @ [WriteHeaderCall c] @ [WriteCall b]"
  using writeJSON_encoded_Returned [OF Encode_errResp assms]
  by (simp add: writer_fields beforeWriteHeader_fields carrier_Nil cookieEvents_def)

section \<open>Facts about \<open>handleError\<close>\<close>

lemma errorsAs_loop:
  "errorsAs e =
     (case typedError e of
        Some cm \<Rightarrow> Done (Some cm)
      | None \<Rightarrow>
          (case Unwrap e of
             Panic \<Rightarrow> Panic
           | Done None \<Rightarrow> Done None
           | Done (Some cause) \<Rightarrow> errorsAs cause))"
  by (cases e rule: errorsAs.cases) simp_all

lemma unwrapChain_Unwrap:
  "unwrapChain e =
     e # (case Unwrap e of Done (Some cause) \<Rightarrow> unwrapChain cause | _ \<Rightarrow> [])"
  by (cases e rule: unwrapChain.cases) simp_all






lemma handleError_writeJSON:
  "handleError env x e = Panicked x
   \<or> (\<exists>c m. handleError env x e = writeJSON env x c (errResp m) [])"
  by (auto simp: handleError_def split: mayPanic.splits option.splits)

lemma handleError_counts:
  "bodyClosed (final (handleError env x e)) = bodyClosed x"
  "fnCalls (final (handleError env x e)) = fnCalls x"
  using handleError_writeJSON [of env x e] by (auto simp: writeJSON_counts)

lemma handleError_events:
  assumes "handleError env x e = Returned x'"
  shows "\<exists>c b. events x' =
           events x @ [HeaderSet ''Content-Type'' ''application/json; charset=utf-8'']
             @ [WriteHeaderCall c] @ [WriteCall b]"
proof -
  from handleError_writeJSON [of env x e] assms
  obtain c m where "writeJSON env x c (errResp m) [] = Returned x'" by auto
  from writeJSON_errResp_events [OF this] show ?thesis by blast
qed

lemma handleError_content_type:
  assumes "status x = None" and "handleError env x e = Returned x'"
  shows "sentHeader x' ''Content-Type'' = Some [''application/json; charset=utf-8'']"
proof -
  from handleError_writeJSON [of env x e] assms(2)
  obtain c m where w: "writeJSON env x c (errResp m) [] = Returned x'" by auto
  show ?thesis
  proof (cases "checkWriteHeaderCode c")
    case True
    from writeJSON_errResp [OF assms(1) True, of env m] w show ?thesis by auto
  next
    case False
    from writeJSON_errResp_panics [OF assms(1) False, of env m] w show ?thesis by auto
  qed
qed


section \<open>Facts about \<open>ServeHTTP\<close>\<close>

text \<open>One lemma for each way through \<open>ServeHTTP\<close>.\<close>

lemma afterCall_fields:
  "events (afterCall h x) = events x"
  "bodyClosed (afterCall h x) = (if takesPayload h then Suc (bodyClosed x) else bodyClosed x)"
  "fnCalls (afterCall h x) = Suc (fnCalls x)"
  "reqBody (afterCall h x) = reqBody x"
  "header (afterCall h x) = header x"
  "sentBody (afterCall h x) = sentBody x"
  "status (afterCall h x) = status x"
  "sentHeader (afterCall h x) = sentHeader x"
  by (simp_all add: afterCall_def closeBody_def)


lemma ServeHTTP_decode_failed:
  assumes "arguments env h x = Inl e"
  shows "ServeHTTP env h x =
           deferred closeBody
             (writeJSON env x 400 (errResp (''Bad request: '' @ Sprint e)) [])"
  by (simp add: ServeHTTP_def assms handleError_def Errorf_def)

lemma ServeHTTP_call_panics:
  assumes "arguments env h x = Inr args" and "Call env h x args = None"
  shows "ServeHTTP env h x = Panicked (if takesPayload h then closeBody x else x)"
  by (simp add: ServeHTTP_def assms)

lemma ServeHTTP_bare:
  assumes "arguments env h x = Inr args" and "Call env h x args = Some rs"
    and "outN h < 0" and "errN h < 0"
  shows "ServeHTTP env h x = Returned (final (WriteHeader 200 (afterCall h x)))"
proof -
  have "ServeHTTP env h x = WriteHeader 200 (afterCall h x)"
    by (simp add: ServeHTTP_def assms afterCall_def closeBody_def)
  also have "\<dots> = Returned (final (WriteHeader 200 (afterCall h x)))"
    by (rule WriteHeader_returns) (simp add: checkWriteHeaderCode_def)
  finally show ?thesis .
qed

lemma ServeHTTP_collect_panics:
  assumes "arguments env h x = Inr args" and "Call env h x args = Some rs"
    and "\<not> (outN h < 0 \<and> errN h < 0)" and "collect h rs = None"
  shows "ServeHTTP env h x = Panicked (afterCall h x)"
  using assms(3) by (auto simp: ServeHTTP_def assms(1,2,4) afterCall_def closeBody_def)

lemma ServeHTTP_collected:
  assumes "arguments env h x = Inr args" and "Call env h x args = Some rs"
    and "\<not> (outN h < 0 \<and> errN h < 0)" and "collect h rs = Some (out, err, opts)"
  shows "ServeHTTP env h x =
           (case err of
              Some e \<Rightarrow> handleError env (afterCall h x) e
            | None \<Rightarrow> writeJSON env (afterCall h x) 200 (Value out) opts)"
  using assms(3)
  by (auto simp: ServeHTTP_def assms(1,2,4) afterCall_def closeBody_def Let_def
        split: option.splits)

lemma arguments_decode:
  "takesPayload h \<Longrightarrow> jsonDecode env (reqBody x) = Inl e \<Longrightarrow> arguments env h x = Inl e"
  by (simp add: arguments_def)

lemma final_deferred_closeBody:
  "bodyClosed (final (deferred closeBody o1)) = Suc (bodyClosed (final o1))"
  by (cases o1) (simp_all add: closeBody_def)

lemma ServeHTTP_closes_body:
  assumes "takesPayload h"
  shows "bodyClosed (final (ServeHTTP env h x)) = Suc (bodyClosed x)"
proof (cases "arguments env h x")
  case (Inl e)
  then show ?thesis
    by (simp add: ServeHTTP_decode_failed final_deferred_closeBody writeJSON_counts)
next
  case (Inr args)
  note args = this
  show ?thesis
  proof (cases "Call env h x args")
    case None
    with args assms show ?thesis by (simp add: ServeHTTP_call_panics closeBody_fields)
  next
    case (Some rs)
    note rs = this
    show ?thesis
    proof (cases "outN h < 0 \<and> errN h < 0")
      case True
      with args rs assms show ?thesis
        by (simp add: ServeHTTP_bare WriteHeader_fields afterCall_fields)
    next
      case False
      show ?thesis
      proof (cases "collect h rs")
        case None
        with args rs False assms show ?thesis
          by (simp add: ServeHTTP_collect_panics afterCall_fields)
      next
        case (Some c)
        obtain out err opts where "c = (out, err, opts)" by (cases c) auto
        with Some have "collect h rs = Some (out, err, opts)" by simp
        from ServeHTTP_collected [OF args rs False this] assms show ?thesis
          by (simp add: handleError_counts writeJSON_counts afterCall_fields split: option.splits)
      qed
    qed
  qed
qed


lemma collect_out:
  "collect h rs = Some (out, err, opts) \<Longrightarrow> 0 \<le> outN h \<Longrightarrow> index rs (outN h) = Some out"
  by (auto simp: collect_def split: option.splits if_splits)



lemma deferred_encode_failure:
  assumes "hv env (reqBody x) [] = [v]" and "Encode env (Value v) = None" and "status x = None"
  shows "status (final (ServeHTTP env (descriptor (TFunc [TContext] [t]) (-1) (-1) 0) x)) = Some 500"
proof -
  let ?H = "descriptor (TFunc [TContext] [t]) (-1) (-1) 0"
  have a: "arguments env ?H x = Inr []" by (simp add: arguments_def descriptor_def)
  have b: "Call env ?H x [] = Some [v]" by (simp add: Call_def descriptor_def assms(1))
  have c: "\<not> (outN ?H < 0 \<and> errN ?H < 0)" by (simp add: descriptor_def)
  have d: "collect ?H [v] = Some (v, None, [])" by (simp add: collect_def index_def descriptor_def)
  show ?thesis
    by (simp add: ServeHTTP_collected [OF a b c d] writeJSON_failed_fields(4) [OF assms(2)]
          afterCall_fields assms(3))
qed

lemmas example_defs =
  exampleEnv_def exampleDecode_def exampleQuote_def newExchange_def descriptor_def
  returnsNothing_def hello_def okCreated_def onlyCreated_def badGateway_def returnsChan_def
  twoErrors_def setCreated_def okPlain_def setZero_def okZero_def code99_def
  errorBeforeCallbacks_def

lemmas serve_defs =
  ServeHTTP_def arguments_def Call_def collect_def index_def handleError_def writeJSON_def
  Encode_def errRespDoc_def httpError_def httpSetCookie_def ioCopy_def Write_def
  WriteHeader_def checkWriteHeaderCode_def commit_def headerSet_def headerAdd_def
  closeBody_def Errorf_def Error_def Sprint_def

text \<open>
  Parameters after the second are never looked at: a function with three or more
  parameters is accepted as one that takes no payload, and each request to it panics in
  \<open>Call\<close> before the function runs.
\<close>

lemma extra_parameters_never_rejected:
  assumes "implementsContext c" and "2 \<le> length ps"
  shows "NewHandler (Some (TFunc (c # ps) []))
           = Inr (descriptor (TFunc (c # ps) []) (-1) (-1) (-1))"
    and "\<not> takesPayload (descriptor (TFunc (c # ps) outs) e opt out)"
    and "ServeHTTP env (descriptor (TFunc (c # ps) outs) e opt out) x = Panicked x"
proof -
  let ?H = "descriptor (TFunc (c # ps) outs) e opt out"
  show "NewHandler (Some (TFunc (c # ps) []))
           = Inr (descriptor (TFunc (c # ps) []) (-1) (-1) (-1))"
    using assms by (simp add: NewHandler_func parseReturns_eq descriptor_def)
  show tp: "\<not> takesPayload ?H" using assms(2) by (simp add: descriptor_def)
  have a: "arguments env ?H x = Inr []" using tp by (simp add: arguments_def)
  have b: "Call env ?H x [] = None" using assms(2) by (auto simp: Call_def descriptor_def)
  show "ServeHTTP env ?H x = Panicked x"
    using tp by (simp add: ServeHTTP_call_panics [OF a b])
qed

text \<open>
  A slice of plain \<open>func(*Response)\<close> is classified as the callbacks, since its element
  type converts to \<open>ResponseFunc\<close>, but the dispatcher asserts \<open>[]ResponseFunc\<close>: such a
  handler is constructed and panics on each request once the function has returned.
\<close>

lemma plain_callback_slice_panics:
  "NewHandler (Some (TFunc [TContext] [TPlain ''string'', TSlice (TFunc [TPtr TResponse] [])]))
     = Inr (descriptor (TFunc [TContext] [TPlain ''string'', TSlice (TFunc [TPtr TResponse] [])])
              (-1) 1 0)
   \<and> ServeHTTP (exampleEnv okPlain)
        (descriptor (TFunc [TContext] [TPlain ''string'', TSlice (TFunc [TPtr TResponse] [])])
           (-1) 1 0)
        (newExchange [])
       = Panicked ((newExchange [])\<lparr>fnCalls := 1\<rparr>)"
  by (simp add: NewHandler_func parseReturns_eq getReturnType_eq serve_defs example_defs Let_def)

section \<open>The claims\<close>

subsection \<open>C1: more than one parameter after the context\<close>

text \<open>
  C1 says that construction fails for every function with more than one parameter after
  the context. \<open>parsePayload\<close> returns without an error whenever the number of
  parameters is not two, so \<open>func(context.Context, string, int)\<close> is accepted, as a
  handler that takes no payload; \<open>ServeHTTP\<close> then calls it with the context alone, and
  reflect panics on the argument count before anything is written.
\<close>

theorem extra_parameters_accepted:
  "NewHandler (Some (TFunc [TContext, TPlain ''string'', TPlain ''int''] []))
     = Inr (descriptor (TFunc [TContext, TPlain ''string'', TPlain ''int''] []) (-1) (-1) (-1))
   \<and> \<not> takesPayload (descriptor (TFunc [TContext, TPlain ''string'', TPlain ''int''] []) (-1) (-1) (-1))
   \<and> ServeHTTP (exampleEnv returnsNothing)
        (descriptor (TFunc [TContext, TPlain ''string'', TPlain ''int''] []) (-1) (-1) (-1))
        (newExchange (exampleQuote ''world''))
       = Panicked (newExchange (exampleQuote ''world''))"
  by (simp add: NewHandler_func parseReturns_eq descriptor_def ServeHTTP_def arguments_def
        Call_def)

subsection \<open>C2: two results in the error role\<close>

text \<open>
  C2 says that construction fails when two results are both classified as errors. Each
  role has one field, which the loop overwrites: \<open>func(context.Context) (error, error)\<close>
  is accepted with the error at position 1, and a request on which the function
  returns a non-nil first error and a nil second one is answered with status 200 and
  the body \<open>null\<close>. Two payload results, by contrast, are rejected, because the later one
  is not first.
\<close>

theorem duplicate_error_accepted:
  "NewHandler (Some (TFunc [TContext] [TErrorIface, TErrorIface]))
     = Inr (descriptor (TFunc [TContext] [TErrorIface, TErrorIface]) 1 (-1) (-1))
   \<and> NewHandler (Some (TFunc [TContext] [TPlain ''string'', TPlain ''string'']))
     = Inl PayloadNotFirst
   \<and> status (final (ServeHTTP (exampleEnv twoErrors)
        (descriptor (TFunc [TContext] [TErrorIface, TErrorIface]) 1 (-1) (-1))
        (newExchange []))) = Some 200
   \<and> sentBody (final (ServeHTTP (exampleEnv twoErrors)
        (descriptor (TFunc [TContext] [TErrorIface, TErrorIface]) 1 (-1) (-1))
        (newExchange []))) = ''null'' @ [nl]"
  by (simp add: NewHandler_func parseReturns_eq getReturnType_def serve_defs example_defs Let_def)

subsection \<open>C3: failure to encode the payload\<close>

text \<open>
  C3: on every request on which the arguments are built, the function returns, its
  results are collected without an error among them, and encoding the payload-role
  value fails, the client gets status 500, the plain-text content type and the fixed
  text \<open>Internal error: Encoding response failed\<close> with a newline as the body. The
  response comes from \<open>http.Error\<close> inside \<open>writeJSON\<close>, not from \<open>handleError\<close>, whose
  responses always have the JSON content type.
\<close>

theorem encode_failure_is_500:
  assumes "arguments env h x = Inr args" and "Call env h x args = Some rs"
    and "0 \<le> outN h" and "collect h rs = Some (out, None, opts)"
    and "Encode env (Value out) = None" and "status x = None"
  shows "\<exists>x'. ServeHTTP env h x = Returned x'
           \<and> index rs (outN h) = Some out
           \<and> status x' = Some 500
           \<and> sentBody x' = sentBody x @ ''Internal error: Encoding response failed'' @ [nl]
           \<and> sentHeader x' ''Content-Type'' = Some [''text/plain; charset=utf-8'']
           \<and> (\<forall>e y y'. status y = None \<and> handleError env y e = Returned y' \<longrightarrow>
                 sentHeader y' ''Content-Type'' \<noteq> sentHeader x' ''Content-Type'')"
proof -
  from assms(3) have nb: "\<not> (outN h < 0 \<and> errN h < 0)" by simp
  let ?w = "writeJSON env (afterCall h x) 200 (Value out) opts"
  have st: "status (afterCall h x) = None" using assms(6) by (simp add: afterCall_fields)
  have serve: "ServeHTTP env h x = Returned (final ?w)"
    using writeJSON_failed_fields(1) [OF assms(5), of "afterCall h x" 200 opts]
    by (simp add: ServeHTTP_collected [OF assms(1,2) nb assms(4)])
  have ct: "sentHeader (final ?w) ''Content-Type'' = Some [''text/plain; charset=utf-8'']"
    by (rule writeJSON_failed_fields(6) [OF assms(5) st])
  have "\<forall>e y y'. status y = None \<and> handleError env y e = Returned y' \<longrightarrow>
          sentHeader y' ''Content-Type'' \<noteq> sentHeader (final ?w) ''Content-Type''"
  proof (intro allI impI)
    fix e y y'
    assume "status y = None \<and> handleError env y e = Returned y'"
    then have "sentHeader y' ''Content-Type'' = Some [''application/json; charset=utf-8'']"
      using handleError_content_type [of y env e y'] by simp
    then show "sentHeader y' ''Content-Type'' \<noteq> sentHeader (final ?w) ''Content-Type''"
      by (simp add: ct)
  qed
  then show ?thesis
    using assms(3)
    by (simp add: serve writeJSON_failed_fields(4,5) [OF assms(5) st] ct afterCall_fields
          collect_out [OF assms(4)])
qed

theorem encode_failure_is_500_witness:
  "arguments (exampleEnv returnsChan) (descriptor (TFunc [TContext] [TPlain ''chan int'']) (-1) (-1) 0)
      (newExchange []) = Inr []
   \<and> Call (exampleEnv returnsChan) (descriptor (TFunc [TContext] [TPlain ''chan int'']) (-1) (-1) 0)
      (newExchange []) [] = Some [VData SChan]
   \<and> 0 \<le> outN (descriptor (TFunc [TContext] [TPlain ''chan int'']) (-1) (-1) 0)
   \<and> collect (descriptor (TFunc [TContext] [TPlain ''chan int'']) (-1) (-1) 0) [VData SChan]
        = Some (VData SChan, None, [])
   \<and> Encode (exampleEnv returnsChan) (Value (VData SChan)) = None
   \<and> status (newExchange []) = None
   \<and> (\<exists>x'. ServeHTTP (exampleEnv returnsChan)
              (descriptor (TFunc [TContext] [TPlain ''chan int'']) (-1) (-1) 0) (newExchange [])
            = Returned x'
          \<and> status x' = Some 500
          \<and> sentBody x' = ''Internal error: Encoding response failed'' @ [nl]
          \<and> sentHeader x' ''Content-Type'' = Some [''text/plain; charset=utf-8''])"
proof -
  let ?E = "exampleEnv returnsChan"
  let ?H = "descriptor (TFunc [TContext] [TPlain ''chan int'']) (-1) (-1) 0"
  let ?X = "newExchange []"
  have a: "arguments ?E ?H ?X = Inr []"
    by (simp add: arguments_def example_defs)
  have b: "Call ?E ?H ?X [] = Some [VData SChan]"
    by (simp add: Call_def example_defs)
  have c: "0 \<le> outN ?H" by (simp add: example_defs)
  have d: "collect ?H [VData SChan] = Some (VData SChan, None, [])"
    by (simp add: collect_def index_def example_defs)
  have e: "Encode ?E (Value (VData SChan)) = None"
    by (simp add: Encode_def example_defs)
  have f: "status ?X = None" by (simp add: example_defs)
  from encode_failure_is_500 [OF a b c d e f] a b c d e f show ?thesis
    by (simp add: newExchange_def) blast
qed

subsection \<open>C4: one \<open>WriteHeader\<close>, then one \<open>Write\<close>\<close>

text \<open>
  C4 says that on every request \<open>WriteHeader\<close> and \<open>Write\<close> are each called exactly once.
  A handler without results answers with \<open>WriteHeader(200)\<close> alone: \<open>Write\<close> is not
  called.
\<close>

theorem writer_calls_counterexample:
  "NewHandler (Some (TFunc [TContext] []))
     = Inr (descriptor (TFunc [TContext] []) (-1) (-1) (-1))
   \<and> events (final (ServeHTTP (exampleEnv returnsNothing)
        (descriptor (TFunc [TContext] []) (-1) (-1) (-1)) (newExchange [])))
       = [WriteHeaderCall 200]
   \<and> length (filter isWrite (events (final (ServeHTTP (exampleEnv returnsNothing)
        (descriptor (TFunc [TContext] []) (-1) (-1) (-1)) (newExchange []))))) \<noteq> 1"
  by (simp add: NewHandler_func parseReturns_eq serve_defs example_defs Let_def)

text \<open>
  C4 as amended: on every request on which \<open>ServeHTTP\<close> returns and no encoding of the
  function's payload fails, what is done to the writer is a run of header changes, then
  one \<open>WriteHeader\<close>, then nothing more when the handler declares neither a payload nor
  an error result and its arguments were built (and then there is no header change
  either and the status is 200), and exactly one \<open>Write\<close> otherwise. No header changes
  after \<open>WriteHeader\<close>.
\<close>

theorem writer_calls_in_order:
  assumes "ServeHTTP env h x = Returned x'"
    and enc: "\<And>args rs out opts.
                arguments env h x = Inr args \<Longrightarrow> Call env h x args = Some rs \<Longrightarrow>
                \<not> (outN h < 0 \<and> errN h < 0) \<Longrightarrow> collect h rs = Some (out, None, opts) \<Longrightarrow>
                Encode env (Value out) \<noteq> None"
  shows "\<exists>hs c ws. events x' = events x @ hs @ [WriteHeaderCall c] @ ws
           \<and> (\<forall>e \<in> set hs. isHeaderChange e)
           \<and> (if \<not> isl (arguments env h x) \<and> outN h < 0 \<and> errN h < 0
               then hs = [] \<and> c = 200 \<and> ws = []
               else (\<exists>b. ws = [WriteCall b]))"
proof (cases "arguments env h x")
  case (Inl e)
  let ?w = "writeJSON env x 400 (errResp (''Bad request: '' @ Sprint e)) []"
  from assms(1) obtain y where y: "?w = Returned y" and x': "x' = closeBody y"
    by (cases ?w) (simp_all add: ServeHTTP_decode_failed [OF Inl])
  from writeJSON_errResp_events [OF y] obtain b where
    "events y = events x @ [HeaderSet ''Content-Type'' ''application/json; charset=utf-8'']
             @ [WriteHeaderCall 400] @ [WriteCall b]"
    by blast
  then have "events x' = events x @ [HeaderSet ''Content-Type'' ''application/json; charset=utf-8'']
             @ [WriteHeaderCall 400] @ [WriteCall b]"
    by (simp add: x' closeBody_fields)
  then show ?thesis using Inl
    by (intro exI [of _ "[HeaderSet ''Content-Type'' ''application/json; charset=utf-8'']"]
          exI [of _ 400] exI [of _ "[WriteCall b]"]) simp
next
  case (Inr args)
  note args = this
  show ?thesis
  proof (cases "Call env h x args")
    case None
    with args assms(1) show ?thesis by (simp add: ServeHTTP_call_panics)
  next
    case (Some rs)
    note rs = this
    show ?thesis
    proof (cases "outN h < 0 \<and> errN h < 0")
      case True
      with assms(1) args rs have "x' = final (WriteHeader 200 (afterCall h x))"
        by (simp add: ServeHTTP_bare)
      then have "events x' = events x @ [] @ [WriteHeaderCall 200] @ []"
        by (simp add: WriteHeader_fields afterCall_fields)
      with True args show ?thesis by (intro exI [of _ "[]"] exI [of _ 200]) simp
    next
      case False
      note nb = this
      show ?thesis
      proof (cases "collect h rs")
        case None
        with assms(1) args rs nb show ?thesis by (simp add: ServeHTTP_collect_panics)
      next
        case (Some t)
        obtain out err opts where t: "t = (out, err, opts)" by (cases t) auto
        with Some have col: "collect h rs = Some (out, err, opts)" by simp
        note serve = ServeHTTP_collected [OF args rs nb col]
        show ?thesis
        proof (cases err)
          case (Some e)
          from assms(1) serve Some have "handleError env (afterCall h x) e = Returned x'" by simp
          from handleError_events [OF this] obtain c b where
            "events x' = events x @ [HeaderSet ''Content-Type'' ''application/json; charset=utf-8'']
                 @ [WriteHeaderCall c] @ [WriteCall b]"
            by (auto simp: afterCall_fields)
          with nb show ?thesis
            by (intro exI [of _ "[HeaderSet ''Content-Type'' ''application/json; charset=utf-8'']"]
                  exI [of _ c] exI [of _ "[WriteCall b]"]) auto
        next
          case None
          with col have col': "collect h rs = Some (out, None, opts)" by simp
          from enc [OF args rs nb col'] obtain b where b: "Encode env (Value out) = Some b"
            by auto
          let ?r = "carrier (afterCall h x) 200 opts"
          let ?hs = "replicate (length opts) RunCallback
                       @ [HeaderSet ''Content-Type'' ''application/json; charset=utf-8'']
                       @ cookieEvents (cookies ?r)"
          from assms(1) serve None
          have "writeJSON env (afterCall h x) 200 (Value out) opts = Returned x'" by simp
          from writeJSON_encoded_Returned [OF b this]
          have "events x' = events x @ ?hs @ [WriteHeaderCall (StatusCode ?r)] @ [WriteCall b]"
            by (simp add: writer_fields beforeWriteHeader_fields afterCall_fields)
          moreover have "\<forall>e \<in> set ?hs. isHeaderChange e"
            using cookieEvents_header by auto
          ultimately show ?thesis using nb
            by (intro exI [of _ ?hs] exI [of _ "StatusCode ?r"] exI [of _ "[WriteCall b]"]) auto
        qed
      qed
    qed
  qed
qed

theorem writer_calls_in_order_witness:
  "ServeHTTP (exampleEnv okCreated)
      (descriptor (TFunc [TContext] [TPlain ''string'', TSlice TResponseFunc]) (-1) 1 0)
      (newExchange [])
     = Returned (final (ServeHTTP (exampleEnv okCreated)
         (descriptor (TFunc [TContext] [TPlain ''string'', TSlice TResponseFunc]) (-1) 1 0)
         (newExchange [])))
   \<and> (\<exists>hs c b. events (final (ServeHTTP (exampleEnv okCreated)
         (descriptor (TFunc [TContext] [TPlain ''string'', TSlice TResponseFunc]) (-1) 1 0)
         (newExchange []))) = hs @ [WriteHeaderCall c] @ [WriteCall b]
        \<and> list_all isHeaderChange hs)"
proof -
  let ?E = "exampleEnv okCreated"
  let ?H = "descriptor (TFunc [TContext] [TPlain ''string'', TSlice TResponseFunc]) (-1) 1 0"
  let ?X = "newExchange []"
  have r: "ServeHTTP ?E ?H ?X = Returned (final (ServeHTTP ?E ?H ?X))"
    by (simp add: serve_defs example_defs Let_def)
  have enc: "\<And>args rs out opts.
                arguments ?E ?H ?X = Inr args \<Longrightarrow> Call ?E ?H ?X args = Some rs \<Longrightarrow>
                \<not> (outN ?H < 0 \<and> errN ?H < 0) \<Longrightarrow> collect ?H rs = Some (out, None, opts) \<Longrightarrow>
                Encode ?E (Value out) \<noteq> None"
    by (auto simp: arguments_def Call_def collect_def index_def Encode_def example_defs)
  have nb: "\<not> (\<not> isl (arguments ?E ?H ?X) \<and> outN ?H < 0 \<and> errN ?H < 0)"
    by (simp add: example_defs)
  have ev: "events ?X = []" by (simp add: example_defs)
  have "\<exists>hs c ws. events (final (ServeHTTP ?E ?H ?X)) = events ?X @ hs @ [WriteHeaderCall c] @ ws
           \<and> (\<forall>e \<in> set hs. isHeaderChange e)
           \<and> (if \<not> isl (arguments ?E ?H ?X) \<and> outN ?H < 0 \<and> errN ?H < 0
               then hs = [] \<and> c = 200 \<and> ws = []
               else (\<exists>b. ws = [WriteCall b]))"
    using r enc by (rule writer_calls_in_order)
  with nb ev
  have "\<exists>hs c b. events (final (ServeHTTP ?E ?H ?X)) = hs @ [WriteHeaderCall c] @ [WriteCall b]
        \<and> list_all isHeaderChange hs"
    by (auto simp: list_all_iff)
  with r show ?thesis by blast
qed

subsection \<open>C5: failure to decode the request body\<close>

text \<open>
  C5: for a handler that takes a payload, the request body is closed exactly once
  however the request ends, and when decoding the body fails with \<open>e\<close> the dispatcher
  returns, without calling the wrapped function, having answered with status 400, the
  JSON content type and as the whole body the object with the one field \<open>error\<close>,
  indented by two spaces and followed by a newline, whose value is the codec's string
  literal of \<open>Bad request: \<close> followed by the text of \<open>e\<close> as \<open>fmt\<close> prints it; for an
  error of the codec that text is its \<open>Error()\<close> string.
\<close>

theorem decode_failure_is_400:
  assumes "takesPayload h"
  shows "bodyClosed (final (ServeHTTP env h x)) = Suc (bodyClosed x)
       \<and> (\<forall>e. jsonDecode env (reqBody x) = Inl e \<and> status x = None \<longrightarrow>
            (\<exists>x'. ServeHTTP env h x = Returned x'
               \<and> status x' = Some 400
               \<and> sentBody x' =
                   sentBody x
                     @ [CHR ''{'', CHR 0x0A, CHR '' '', CHR '' '', CHR 0x22] @ ''error''
                     @ [CHR 0x22, CHR '':'', CHR '' '']
                     @ jsonQuote env (''Bad request: '' @ Sprint e)
                     @ [CHR 0x0A, CHR ''}'', CHR 0x0A]
               \<and> sentHeader x' ''Content-Type'' = Some [''application/json; charset=utf-8'']
               \<and> events x' =
                   events x @ [HeaderSet ''Content-Type'' ''application/json; charset=utf-8'',
                               WriteHeaderCall 400,
                               WriteCall
                                 ([CHR ''{'', CHR 0x0A, CHR '' '', CHR '' '', CHR 0x22] @ ''error''
                                  @ [CHR 0x22, CHR '':'', CHR '' '']
                                  @ jsonQuote env (''Bad request: '' @ Sprint e)
                                  @ [CHR 0x0A, CHR ''}'', CHR 0x0A])]
               \<and> fnCalls x' = fnCalls x))
       \<and> (\<forall>s cause. jsonDecode env (reqBody x) = Inl (OtherErr s cause) \<and> status x = None \<longrightarrow>
            sentBody (final (ServeHTTP env h x)) =
              sentBody x
                @ [CHR ''{'', CHR 0x0A, CHR '' '', CHR '' '', CHR 0x22] @ ''error''
                @ [CHR 0x22, CHR '':'', CHR '' '']
                @ jsonQuote env (''Bad request: '' @ s)
                @ [CHR 0x0A, CHR ''}'', CHR 0x0A])"
proof -
  have closes: "bodyClosed (final (ServeHTTP env h x)) = Suc (bodyClosed x)"
    by (rule ServeHTTP_closes_body [OF assms])
  have main: "\<exists>x'. ServeHTTP env h x = Returned x'
               \<and> status x' = Some 400
               \<and> sentBody x' = sentBody x @ errorDocument (jsonQuote env) (''Bad request: '' @ Sprint e)
               \<and> sentHeader x' ''Content-Type'' = Some [''application/json; charset=utf-8'']
               \<and> events x' =
                   events x @ [HeaderSet ''Content-Type'' ''application/json; charset=utf-8'',
                               WriteHeaderCall 400,
                               WriteCall (errorDocument (jsonQuote env) (''Bad request: '' @ Sprint e))]
               \<and> fnCalls x' = fnCalls x"
    if a: "jsonDecode env (reqBody x) = Inl e \<and> status x = None" for e
  proof -
    from a assms have ar: "arguments env h x = Inl e" by (simp add: arguments_decode)
    have ck: "checkWriteHeaderCode 400" by (simp add: checkWriteHeaderCode_def)
    from a have st: "status x = None" by simp
    from writeJSON_errResp [OF st ck, of env "''Bad request: '' @ Sprint e"]
    show ?thesis
      by (auto simp: ServeHTTP_decode_failed [OF ar] closeBody_fields errRespDoc_explicit)
  qed
  have other: "sentBody (final (ServeHTTP env h x)) =
              sentBody x @ errorDocument (jsonQuote env) (''Bad request: '' @ s)"
    if a: "jsonDecode env (reqBody x) = Inl (OtherErr s cause) \<and> status x = None" for s cause
    using main [OF a] by (auto simp: Sprint_def)
  from closes main other show ?thesis
    unfolding errorDocument_def by (simp only: append_assoc) blast
qed

theorem decode_failure_is_400_witness:
  "takesPayload (descriptor (TFunc [TContext, TPlain ''string''] []) (-1) (-1) (-1))
   \<and> jsonDecode (exampleEnv returnsNothing) (reqBody (newExchange ''[]''))
       = Inl (OtherErr ''json: cannot unmarshal into Go value of type string'' None)
   \<and> status (newExchange ''[]'') = None
   \<and> bodyClosed (final (ServeHTTP (exampleEnv returnsNothing)
        (descriptor (TFunc [TContext, TPlain ''string''] []) (-1) (-1) (-1)) (newExchange ''[]''))) = 1
   \<and> (\<exists>x'. ServeHTTP (exampleEnv returnsNothing)
              (descriptor (TFunc [TContext, TPlain ''string''] []) (-1) (-1) (-1)) (newExchange ''[]'')
            = Returned x'
          \<and> status x' = Some 400
          \<and> sentBody x' =
              errorDocument exampleQuote
                ''Bad request: json: cannot unmarshal into Go value of type string''
          \<and> fnCalls x' = 0)"
proof -
  let ?E = "exampleEnv returnsNothing"
  let ?H = "descriptor (TFunc [TContext, TPlain ''string''] []) (-1) (-1) (-1)"
  let ?X = "newExchange ''[]''"
  have t: "takesPayload ?H" by (simp add: example_defs)
  have d: "jsonDecode ?E (reqBody ?X)
             = Inl (OtherErr ''json: cannot unmarshal into Go value of type string'' None)"
    by (simp add: example_defs)
  have s: "status ?X = None" by (simp add: example_defs)
  have q: "jsonQuote ?E = exampleQuote" by (simp add: exampleEnv_def)
  from decode_failure_is_400 [OF t, of ?E ?X] d s
  have "bodyClosed (final (ServeHTTP ?E ?H ?X)) = 1
      \<and> (\<exists>x'. ServeHTTP ?E ?H ?X = Returned x' \<and> status x' = Some 400
            \<and> sentBody x' =
                errorDocument exampleQuote
                  ''Bad request: json: cannot unmarshal into Go value of type string''
            \<and> fnCalls x' = 0)"
    by (auto simp: newExchange_def Sprint_def errorDocument_def q)
  with t d s show ?thesis by blast
qed

subsection \<open>C6: translation of an error\<close>




subsection \<open>C7: the response to a payload\<close>




subsection \<open>C8: a handler without payload and error results\<close>

text \<open>
  C8 says that every request to a handler that declares neither a payload nor an error
  result is answered with a bare 200. When such a handler takes a payload and the
  request body does not decode, the answer is status 400 with the error document.
\<close>

theorem no_returns_counterexample:
  "NewHandler (Some (TFunc [TContext, TPlain ''string''] []))
     = Inr (descriptor (TFunc [TContext, TPlain ''string''] []) (-1) (-1) (-1))
   \<and> outN (descriptor (TFunc [TContext, TPlain ''string''] []) (-1) (-1) (-1)) < 0
   \<and> errN (descriptor (TFunc [TContext, TPlain ''string''] []) (-1) (-1) (-1)) < 0
   \<and> status (final (ServeHTTP (exampleEnv returnsNothing)
        (descriptor (TFunc [TContext, TPlain ''string''] []) (-1) (-1) (-1)) (newExchange ''[]'')))
       = Some 400
   \<and> sentBody (final (ServeHTTP (exampleEnv returnsNothing)
        (descriptor (TFunc [TContext, TPlain ''string''] []) (-1) (-1) (-1)) (newExchange ''[]'')))
       \<noteq> []"
  by (simp add: NewHandler_func parseReturns_eq serve_defs example_defs Let_def)

text \<open>
  C8 as amended: on every request to such a handler on which the arguments are built
  (the payload, if the handler takes one, decodes) and the function is called and
  returns, the dispatcher calls \<open>WriteHeader(200)\<close> and nothing else: no header changes,
  no callback runs even when a callback result is declared, and nothing is written to
  the body.
\<close>

theorem no_returns_bare_200:
  assumes "outN h < 0" and "errN h < 0"
    and "arguments env h x = Inr args" and "Call env h x args = Some rs"
  shows "\<exists>x'. ServeHTTP env h x = Returned x'
           \<and> events x' = events x @ [WriteHeaderCall 200]
           \<and> header x' = header x
           \<and> sentBody x' = sentBody x
           \<and> (status x = None \<longrightarrow> status x' = Some 200 \<and> sentHeader x' = header x)"
  by (simp add: ServeHTTP_bare [OF assms(3,4,1,2)] WriteHeader_fields afterCall_fields
        checkWriteHeaderCode_def)

theorem no_returns_bare_200_witness:
  "outN (descriptor (TFunc [TContext] [TSlice TResponseFunc]) (-1) 0 (-1)) < 0
   \<and> errN (descriptor (TFunc [TContext] [TSlice TResponseFunc]) (-1) 0 (-1)) < 0
   \<and> arguments (exampleEnv onlyCreated) (descriptor (TFunc [TContext] [TSlice TResponseFunc]) (-1) 0 (-1))
        (newExchange []) = Inr []
   \<and> Call (exampleEnv onlyCreated) (descriptor (TFunc [TContext] [TSlice TResponseFunc]) (-1) 0 (-1))
        (newExchange []) [] = Some [VOpts [setCreated]]
   \<and> status (newExchange []) = None
   \<and> NewHandler (Some (TFunc [TContext] [TSlice TResponseFunc]))
       = Inr (descriptor (TFunc [TContext] [TSlice TResponseFunc]) (-1) 0 (-1))
   \<and> (\<exists>x'. ServeHTTP (exampleEnv onlyCreated)
              (descriptor (TFunc [TContext] [TSlice TResponseFunc]) (-1) 0 (-1)) (newExchange [])
            = Returned x'
          \<and> events x' = [WriteHeaderCall 200]
          \<and> sentBody x' = []
          \<and> status x' = Some 200)"
proof -
  let ?E = "exampleEnv onlyCreated"
  let ?H = "descriptor (TFunc [TContext] [TSlice TResponseFunc]) (-1) 0 (-1)"
  let ?X = "newExchange []"
  have o: "outN ?H < 0" and e: "errN ?H < 0" by (simp_all add: example_defs)
  have a: "arguments ?E ?H ?X = Inr []" by (simp add: arguments_def example_defs)
  have b: "Call ?E ?H ?X [] = Some [VOpts [setCreated]]" by (simp add: Call_def example_defs)
  have s: "status ?X = None" by (simp add: example_defs)
  have n: "NewHandler (Some (TFunc [TContext] [TSlice TResponseFunc])) = Inr ?H"
    by (simp add: NewHandler_func parseReturns_eq getReturnType_eq descriptor_def Let_def)
  from no_returns_bare_200 [OF o e a b] s
  have "\<exists>x'. ServeHTTP ?E ?H ?X = Returned x' \<and> events x' = [WriteHeaderCall 200]
          \<and> sentBody x' = [] \<and> status x' = Some 200"
    by (auto simp: newExchange_def)
  with o e a b s n show ?thesis by blast
qed

subsection \<open>C9: misplaced error and payload results\<close>

text \<open>
  C9 says that construction fails for every function with two or more results of which
  one in the error role is not the last. \<open>func(context.Context) (error, []ResponseFunc,
  error)\<close> has an error-role result at position 0 and is accepted, with the error at
  position 2: the loop overwrites the position of the earlier one, as for C2, and a
  request on which the function returns a non-nil first error is answered with status
  200 and the body \<open>null\<close>.
\<close>

theorem misplaced_error_accepted:
  "NewHandler (Some (TFunc [TContext] [TErrorIface, TSlice TResponseFunc, TErrorIface]))
     = Inr (descriptor (TFunc [TContext] [TErrorIface, TSlice TResponseFunc, TErrorIface])
              2 1 (-1))
   \<and> getReturnType ([TErrorIface, TSlice TResponseFunc, TErrorIface] ! 0) = returnErr
   \<and> status (final (ServeHTTP (exampleEnv errorBeforeCallbacks)
        (descriptor (TFunc [TContext] [TErrorIface, TSlice TResponseFunc, TErrorIface]) 2 1 (-1))
        (newExchange []))) = Some 200
   \<and> sentBody (final (ServeHTTP (exampleEnv errorBeforeCallbacks)
        (descriptor (TFunc [TContext] [TErrorIface, TSlice TResponseFunc, TErrorIface]) 2 1 (-1))
        (newExchange []))) = ''null'' @ [nl]"
  by (simp add: NewHandler_func parseReturns_eq getReturnType_eq serve_defs example_defs Let_def)

subsection \<open>C10: the classification is total\<close>

text \<open>
  C10: \<open>getReturnType\<close> never answers \<open>returnInvalid\<close>, and \<open>NewHandler\<close> never fails with
  an invalid return type. A type that neither implements \<open>error\<close> nor is a slice of
  functions convertible to \<open>ResponseFunc\<close> is a payload: a function returning it alone,
  or it and an \<open>error\<close>, is accepted, and when a value of it does not encode the failure
  shows on the request, as status 500.
\<close>

theorem classification_total:
  "getReturnType t \<noteq> returnInvalid
   \<and> NewHandler f \<noteq> Inl (InvalidReturnType i)
   \<and> (\<not> implementsError t \<and> \<not> isCallbackSlice t \<longrightarrow>
        getReturnType t = returnPayload
        \<and> NewHandler (Some (TFunc (TContext # ps) [t]))
            = Inr (descriptor (TFunc (TContext # ps) [t]) (-1) (-1) 0)
        \<and> NewHandler (Some (TFunc (TContext # ps) [t, TErrorIface]))
            = Inr (descriptor (TFunc (TContext # ps) [t, TErrorIface]) 1 (-1) 0)
        \<and> (hv env (reqBody x) [] = [v] \<and> Encode env (Value v) = None \<and> status x = None \<longrightarrow>
             status (final (ServeHTTP env (descriptor (TFunc [TContext] [t]) (-1) (-1) 0) x))
               = Some 500))"
  by (simp add: getReturnType_valid NewHandler_not_invalid NewHandler_func parseReturns_eq
        getReturnType_eq descriptor_def [of "TFunc (TContext # ps) outs" for outs] Let_def
        deferred_encode_failure)

theorem classification_total_witness:
  "\<not> implementsError (TFunc [] []) \<and> \<not> isCallbackSlice (TFunc [] [])
   \<and> hv (exampleEnv returnsChan) (reqBody (newExchange [])) [] = [VData SChan]
   \<and> Encode (exampleEnv returnsChan) (Value (VData SChan)) = None
   \<and> status (newExchange []) = None
   \<and> getReturnType (TFunc [] []) = returnPayload
   \<and> NewHandler (Some (TFunc [TContext] [TFunc [] []]))
        = Inr (descriptor (TFunc [TContext] [TFunc [] []]) (-1) (-1) 0)
   \<and> status (final (ServeHTTP (exampleEnv returnsChan)
        (descriptor (TFunc [TContext] [TFunc [] []]) (-1) (-1) 0) (newExchange []))) = Some 500"
proof -
  have a: "\<not> implementsError (TFunc [] [])" and b: "\<not> isCallbackSlice (TFunc [] [])"
    by simp_all
  have c: "hv (exampleEnv returnsChan) (reqBody (newExchange [])) [] = [VData SChan]"
    by (simp add: example_defs)
  have d: "Encode (exampleEnv returnsChan) (Value (VData SChan)) = None"
    by (simp add: Encode_def example_defs)
  have e: "status (newExchange []) = None" by (simp add: example_defs)
  from classification_total [of "TFunc [] []" None 0 "[]" "exampleEnv returnsChan"
         "newExchange []" "VData SChan"] a b c d e
  show ?thesis by simp
qed

end
